theory Spec2Isabelle
  imports Complex_Main "HOL-Library.Monad_Syntax" "HOL-Library.Sublist"
begin

text \<open>
  The message parser (\<^verbatim>\<open>MessageParser\<close>) and the connection manager
  (\<^verbatim>\<open>WebSocketManager\<close>) of a WebSocket client for the chat of Kick.com: the parser
  as functions on JavaScript values, the manager as functions on a state that records what it
  does to its transports, timers, promises and listeners.
\<close>

section \<open>JavaScript values\<close>

text \<open>
  The parser works on what \<^verbatim>\<open>JSON.parse\<close> returns, whatever the TypeScript annotations
  say, so the model works on untyped values. Numbers are rationals: every finite double is
  one, and the code only passes numbers on or tests them for zero. \<open>Undefined\<close> is what
  reading an absent property gives. Objects are association lists of their own properties.
\<close>

datatype jsval =
    Undefined
  | Null
  | Bool bool
  | Num rat
  | Str string
  | Arr "jsval list"
  | Obj "(string \<times> jsval) list"

text \<open>
  A computation that can throw has type \<open>'a option\<close>; \<open>None\<close> is a thrown exception.
  Every \<^verbatim>\<open>catch\<close> of the sources treats all exceptions alike, so one value is enough.
\<close>

text \<open>\<^verbatim>\<open>!v\<close> is false for these.\<close>

fun truthy :: "jsval \<Rightarrow> bool" where
  "truthy Undefined = False"
| "truthy Null = False"
| "truthy (Bool b) = b"
| "truthy (Num n) = (n \<noteq> 0)"
| "truthy (Str s) = (s \<noteq> [])"
| "truthy (Arr _) = True"
| "truthy (Obj _) = True"

text \<open>\<^verbatim>\<open>a || b\<close>\<close>

definition or_js :: "jsval \<Rightarrow> jsval \<Rightarrow> jsval" where
  "or_js a b = (if truthy a then a else b)"

text \<open>
  \<^verbatim>\<open>v.k\<close>: a TypeError on \<^verbatim>\<open>undefined\<close> and \<^verbatim>\<open>null\<close>, the own property of an
  object, and \<^verbatim>\<open>undefined\<close> on every other value (none of the property names the sources
  read is defined on a string, number, boolean or array prototype).
\<close>

fun get :: "jsval \<Rightarrow> string \<Rightarrow> jsval option" where
  "get Undefined k = None"
| "get Null k = None"
| "get (Obj kvs) k = Some (case map_of kvs k of None \<Rightarrow> Undefined | Some x \<Rightarrow> x)"
| "get v k = Some Undefined"

text \<open>\<^verbatim>\<open>v?.k\<close>\<close>

fun opt_get :: "jsval \<Rightarrow> string \<Rightarrow> jsval" where
  "opt_get (Obj kvs) k = (case map_of kvs k of None \<Rightarrow> Undefined | Some x \<Rightarrow> x)"
| "opt_get v k = Undefined"

text \<open>\<^verbatim>\<open>typeof v === "object"\<close>, which holds for \<^verbatim>\<open>null\<close> and arrays too.\<close>

fun typeof_object :: "jsval \<Rightarrow> bool" where
  "typeof_object Null = True"
| "typeof_object (Arr _) = True"
| "typeof_object (Obj _) = True"
| "typeof_object v = False"

text \<open>
  \<^verbatim>\<open>v.startsWith(p)\<close>: only strings have the method, calling it on any other value
  that passed a truthiness test is a TypeError.
\<close>

fun startsWith :: "jsval \<Rightarrow> string \<Rightarrow> bool option" where
  "startsWith (Str s) p = Some (prefix p s)"
| "startsWith v p = None"

text \<open>
  \<^verbatim>\<open>s.trim() === ""\<close>. Characters are code units below 256; the white space and line
  terminators of ECMAScript in that range are 9 to 13, 32 and 160.
\<close>

definition is_js_space :: "char \<Rightarrow> bool" where
  "is_js_space c = ((of_char c :: nat) \<in> {9, 10, 11, 12, 13, 32, 160})"

definition trim_is_empty :: "string \<Rightarrow> bool" where
  "trim_is_empty s = list_all is_js_space s"

section \<open>What the parser imports\<close>

text \<open>
  \<^verbatim>\<open>KickEvent\<close> is the enum of wire event names; its members are the cases of the
  switch in \<^verbatim>\<open>parseMessage\<close>, in the order of the source.
\<close>

datatype KickEvent =
    ChatMessage
  | MessageDeleted
  | UserBanned
  | UserUnbanned
  | Subscription
  | GiftedSubscriptions
  | PinnedMessageCreated
  | StreamHost
  | PollUpdate
  | PollDelete
  | RewardRedeemed
  | KicksGifted

text \<open>
  \<^verbatim>\<open>MessageParser\<close> imports \<^verbatim>\<open>KickEvent\<close> and \<^verbatim>\<open>LEGACY_EVENT_MAPPING\<close>
  from \<^verbatim>\<open>./types.js\<close>, whose declarations of the two are not among the sources, and calls
  the built-in \<^verbatim>\<open>JSON.parse\<close>. All of them are parameters of the model:
  \<^item> \<open>JSON_parse\<close> maps a text to its value, \<open>None\<close> for a SyntaxError;
  \<^item> \<open>ToString\<close> is the conversion \<^verbatim>\<open>JSON.parse\<close> applies to an argument that is not a
    string;
  \<^item> \<open>KickEvent_value\<close> gives each enum member its string;
  \<^item> \<open>LEGACY_EVENT_MAPPING\<close> gives the own properties of the table.
\<close>

record host =
  JSON_parse :: "string \<Rightarrow> jsval option"
  ToString :: "jsval \<Rightarrow> string"
  KickEvent_value :: "KickEvent \<Rightarrow> string"
  LEGACY_EVENT_MAPPING :: "string \<Rightarrow> string option"

text \<open>
  \<^verbatim>\<open>JSON.parse(v)\<close> for a value \<open>v\<close>.
\<close>

definition JSON_parse_value :: "host \<Rightarrow> jsval \<Rightarrow> jsval option" where
  "JSON_parse_value h v = (case v of Str s \<Rightarrow> JSON_parse h s | _ \<Rightarrow> JSON_parse h (ToString h v))"

text \<open>
  A table is an object literal, so reading a key that is no own property but a property of
  \<^verbatim>\<open>Object.prototype\<close> gives a function: a truthy value that equals no string.
\<close>

definition Object_prototype_keys :: "string list" where
  "Object_prototype_keys =
    [''constructor'', ''__proto__'', ''hasOwnProperty'', ''isPrototypeOf'',
     ''propertyIsEnumerable'', ''toLocaleString'', ''toString'', ''valueOf'',
     ''__defineGetter__'', ''__defineSetter__'', ''__lookupGetter__'', ''__lookupSetter__'']"

datatype lookup = Own string | Inherited | Absent

definition table_get :: "(string \<Rightarrow> string option) \<Rightarrow> string \<Rightarrow> lookup" where
  "table_get t k =
    (case t k of Some v \<Rightarrow> Own v
     | None \<Rightarrow> if k \<in> set Object_prototype_keys then Inherited else Absent)"

section \<open>MessageParser\<close>

subsection \<open>cleanEmotes\<close>

text \<open>
  \<^verbatim>\<open>content.replace(/\[emote:(\d+):(\w+)\]/g, "$2")\<close>.
  \<open>match_emote s\<close> matches the expression at the start of \<open>s\<close> and returns the second group
  and the text after the match. A digit run is followed by a colon and a word run by a closing
  bracket, neither of which is in the run's class, so the greedy run is the only one that can
  match and no backtracking is lost.
\<close>

definition code_unit :: "char \<Rightarrow> nat" where
  "code_unit c = of_char c"

definition is_digit :: "char \<Rightarrow> bool" where
  "is_digit c = (code_unit CHR ''0'' \<le> code_unit c \<and> code_unit c \<le> code_unit CHR ''9'')"

definition is_word :: "char \<Rightarrow> bool" where
  "is_word c =
    ((code_unit CHR ''a'' \<le> code_unit c \<and> code_unit c \<le> code_unit CHR ''z'')
     \<or> (code_unit CHR ''A'' \<le> code_unit c \<and> code_unit c \<le> code_unit CHR ''Z'')
     \<or> is_digit c \<or> c = CHR ''_'')"

fun strip_prefix :: "string \<Rightarrow> string \<Rightarrow> string option" where
  "strip_prefix [] s = Some s"
| "strip_prefix (p # ps) [] = None"
| "strip_prefix (p # ps) (c # cs) = (if p = c then strip_prefix ps cs else None)"

definition match_emote :: "string \<Rightarrow> (string \<times> string) option" where
  "match_emote s =
    (case strip_prefix ''[emote:'' s of
       None \<Rightarrow> None
     | Some r1 \<Rightarrow>
        (let ds = takeWhile is_digit r1 in
         if ds = [] then None
         else (case dropWhile is_digit r1 of
                 [] \<Rightarrow> None
               | c # r2 \<Rightarrow>
                  if c \<noteq> CHR '':'' then None
                  else (let w = takeWhile is_word r2 in
                        if w = [] then None
                        else (case dropWhile is_word r2 of
                                [] \<Rightarrow> None
                              | d # r3 \<Rightarrow> if d = CHR '']'' then Some (w, r3) else None)))))"

text \<open>
  The global replacement scans from the left. \<open>replace_emotes k s\<close> is the scan with \<open>k\<close>
  characters of a match still to skip; a match's text is not scanned again.
\<close>

fun replace_emotes :: "nat \<Rightarrow> string \<Rightarrow> string" where
  "replace_emotes k [] = []"
| "replace_emotes (Suc k) (c # cs) = replace_emotes k cs"
| "replace_emotes 0 (c # cs) =
    (case match_emote (c # cs) of
       None \<Rightarrow> c # replace_emotes 0 cs
     | Some (w, rest) \<Rightarrow> w @ replace_emotes (length cs - length rest) cs)"

text \<open>
  \<^verbatim>\<open>if (!content) return ""\<close>; a truthy value that is no string has no \<^verbatim>\<open>replace\<close>
  method, and the call throws.
\<close>

definition cleanEmotes :: "jsval \<Rightarrow> jsval option" where
  "cleanEmotes content =
    (if \<not> truthy content then Some (Str [])
     else (case content of Str s \<Rightarrow> Some (Str (replace_emotes 0 s)) | _ \<Rightarrow> None))"

subsection \<open>The transforms of the event kinds\<close>

text \<open>
  Each transform builds an object literal from property reads. A read that throws makes the
  transform throw; \<^verbatim>\<open>parseMessage\<close> catches it. The result objects are association lists
  in the order of the literal.
\<close>

definition parseChatMessage :: "jsval \<Rightarrow> jsval option" where
  "parseChatMessage data = do {
     id \<leftarrow> get data ''id'';
     raw_content \<leftarrow> get data ''content'';
     content \<leftarrow> cleanEmotes raw_content;
     created_at \<leftarrow> get data ''created_at'';
     sender \<leftarrow> get data ''sender'';
     sender_id \<leftarrow> get sender ''id'';
     username \<leftarrow> get sender ''username'';
     slug \<leftarrow> get sender ''slug'';
     identity \<leftarrow> get sender ''identity'';
     chatroom \<leftarrow> get data ''chatroom'';
     Some (Obj
       [(''id'', id),
        (''content'', content),
        (''type'', Str ''message''),
        (''created_at'', created_at),
        (''sender'', Obj
          [(''id'', sender_id),
           (''username'', username),
           (''slug'', slug),
           (''identity'', Obj
             [(''color'', or_js (opt_get identity ''color'') (Str ''#ffffff'')),
              (''badges'', or_js (opt_get identity ''badges'') (Arr []))])]),
        (''chatroom'', Obj [(''id'', or_js (opt_get chatroom ''id'') (Num 0))])])
   }"

definition parseMessageDeleted :: "jsval \<Rightarrow> jsval option" where
  "parseMessageDeleted data = do {
     message_id \<leftarrow> get data ''message_id'';
     chatroom_id \<leftarrow> get data ''chatroom_id'';
     Some (Obj
       [(''message_id'', message_id),
        (''chatroom_id'', chatroom_id),
        (''type'', Str ''message_deleted'')])
   }"

definition parseUserBanned :: "jsval \<Rightarrow> jsval option" where
  "parseUserBanned data = do {
     username \<leftarrow> get data ''username'';
     banned_username \<leftarrow> get data ''banned_username'';
     Some (Obj
       [(''username'', or_js username (or_js banned_username (Str ''unknown''))),
        (''type'', Str ''user_banned'')])
   }"

definition parseUserUnbanned :: "jsval \<Rightarrow> jsval option" where
  "parseUserUnbanned data = do {
     username \<leftarrow> get data ''username'';
     unbanned_username \<leftarrow> get data ''unbanned_username'';
     Some (Obj
       [(''username'', or_js username (or_js unbanned_username (Str ''unknown''))),
        (''type'', Str ''user_unbanned'')])
   }"

definition parseSubscription :: "jsval \<Rightarrow> jsval option" where
  "parseSubscription data = do {
     username \<leftarrow> get data ''username'';
     user \<leftarrow> get data ''user'';
     Some (Obj
       [(''username'', or_js username (or_js (opt_get user ''username'') (Str ''unknown''))),
        (''type'', Str ''subscription'')])
   }"

text \<open>
  \<^verbatim>\<open>typeof r === "string" ? r : r.username || "unknown"\<close>, the function mapped over the
  recipients.
\<close>

definition recipient_name :: "jsval \<Rightarrow> jsval option" where
  "recipient_name r =
    (case r of
       Str s \<Rightarrow> Some r
     | _ \<Rightarrow> do { username \<leftarrow> get r ''username''; Some (or_js username (Str ''unknown'')) })"

text \<open>
  \<^verbatim>\<open>data.gifted_by || (typeof data.gifter === "object" ? data.gifter.username : data.gifter) || "unknown"\<close>:
  the second operand is evaluated, and can throw on \<^verbatim>\<open>null\<close>, only when the first is falsy.
\<close>

definition parseGiftedSubscriptions :: "jsval \<Rightarrow> jsval option" where
  "parseGiftedSubscriptions data = do {
     gifted_by \<leftarrow> get data ''gifted_by'';
     gifter \<leftarrow>
       (if truthy gifted_by then Some gifted_by
        else do {
          g \<leftarrow> get data ''gifter'';
          name \<leftarrow> (if typeof_object g then get g ''username'' else Some g);
          Some (or_js name (Str ''unknown''))
        });
     rs \<leftarrow> get data ''recipients'';
     recipients \<leftarrow>
       (case rs of
          Arr xs \<Rightarrow> map_option Arr (those (map recipient_name xs))
        | _ \<Rightarrow> Some (Arr []));
     Some (Obj
       [(''gifted_by'', gifter),
        (''recipients'', recipients),
        (''type'', Str ''gifted_subscriptions'')])
   }"

definition parsePinnedMessageCreated :: "jsval \<Rightarrow> jsval option" where
  "parsePinnedMessageCreated data = do {
     m \<leftarrow> get data ''message'';
     message \<leftarrow> parseChatMessage m;
     Some (Obj
       [(''message'', message),
        (''type'', Str ''pinned_message_created'')])
   }"

text \<open>
  \<^verbatim>\<open>typeof v === "string" ? v : v?.username || "unknown"\<close>
\<close>

definition name_or_username :: "jsval \<Rightarrow> jsval" where
  "name_or_username v =
    (case v of Str s \<Rightarrow> v | _ \<Rightarrow> or_js (opt_get v ''username'') (Str ''unknown''))"

definition parseStreamHost :: "jsval \<Rightarrow> jsval option" where
  "parseStreamHost data = do {
     hoster \<leftarrow> get data ''hoster'';
     hosted_channel \<leftarrow> get data ''hosted_channel'';
     Some (Obj
       [(''hoster'', name_or_username hoster),
        (''hosted_channel'', name_or_username hosted_channel),
        (''type'', Str ''stream_host'')])
   }"

definition poll_option :: "jsval \<Rightarrow> jsval option" where
  "poll_option opt = do {
     id \<leftarrow> get opt ''id'';
     text \<leftarrow> get opt ''text'';
     votes \<leftarrow> get opt ''votes'';
     Some (Obj [(''id'', id), (''text'', text), (''votes'', or_js votes (Num 0))])
   }"

text \<open>
  \<^verbatim>\<open>(data.options || []).map(...)\<close>: a truthy value that is no array has no
  \<^verbatim>\<open>map\<close> method.
\<close>

definition parsePollUpdate :: "jsval \<Rightarrow> jsval option" where
  "parsePollUpdate data = do {
     id \<leftarrow> get data ''id'';
     question \<leftarrow> get data ''question'';
     os \<leftarrow> get data ''options'';
     options \<leftarrow>
       (case or_js os (Arr []) of
          Arr xs \<Rightarrow> map_option Arr (those (map poll_option xs))
        | _ \<Rightarrow> None);
     Some (Obj
       [(''poll_id'', id),
        (''question'', question),
        (''options'', options),
        (''type'', Str ''poll_update'')])
   }"

definition parsePollDelete :: "jsval \<Rightarrow> jsval option" where
  "parsePollDelete data = do {
     id \<leftarrow> get data ''id'';
     Some (Obj [(''poll_id'', id), (''type'', Str ''poll_delete'')])
   }"

definition parseRewardRedeemed :: "jsval \<Rightarrow> jsval option" where
  "parseRewardRedeemed data = do {
     reward_title \<leftarrow> get data ''reward_title'';
     user_id \<leftarrow> get data ''user_id'';
     channel_id \<leftarrow> get data ''channel_id'';
     username \<leftarrow> get data ''username'';
     user_input \<leftarrow> get data ''user_input'';
     reward_background_color \<leftarrow> get data ''reward_background_color'';
     Some (Obj
       [(''reward_title'', reward_title),
        (''user_id'', user_id),
        (''channel_id'', channel_id),
        (''username'', username),
        (''user_input'', user_input),
        (''reward_background_color'', reward_background_color),
        (''type'', Str ''reward_redeemed'')])
   }"

definition parseKicksGifted :: "jsval \<Rightarrow> jsval option" where
  "parseKicksGifted data = do {
     gift_transaction_id \<leftarrow> get data ''gift_transaction_id'';
     message \<leftarrow> get data ''message'';
     sender \<leftarrow> get data ''sender'';
     sender_id \<leftarrow> get sender ''id'';
     username \<leftarrow> get sender ''username'';
     username_color \<leftarrow> get sender ''username_color'';
     gift \<leftarrow> get data ''gift'';
     gift_id \<leftarrow> get gift ''gift_id'';
     name \<leftarrow> get gift ''name'';
     amount \<leftarrow> get gift ''amount'';
     gift_type \<leftarrow> get gift ''type'';
     tier \<leftarrow> get gift ''tier'';
     character_limit \<leftarrow> get gift ''character_limit'';
     pinned_time \<leftarrow> get gift ''pinned_time'';
     Some (Obj
       [(''gift_transaction_id'', gift_transaction_id),
        (''message'', message),
        (''sender'', Obj
          [(''id'', sender_id),
           (''username'', username),
           (''username_color'', username_color)]),
        (''gift'', Obj
          [(''gift_id'', gift_id),
           (''name'', name),
           (''amount'', amount),
           (''type'', gift_type),
           (''tier'', tier),
           (''character_limit'', character_limit),
           (''pinned_time'', pinned_time)]),
        (''type'', Str ''kicks_gifted'')])
   }"

subsection \<open>parseMessage\<close>

text \<open>
  The result of \<^verbatim>\<open>parseMessage\<close>; \<open>type\<close> is the string literal the switch case writes,
  one per enum member, given by \<open>type_name\<close>.
\<close>

record envelope =
  type :: KickEvent
  data :: jsval
  legacyType :: "string option"

fun type_name :: "KickEvent \<Rightarrow> string" where
  "type_name ChatMessage = ''ChatMessage''"
| "type_name MessageDeleted = ''MessageDeleted''"
| "type_name UserBanned = ''UserBanned''"
| "type_name UserUnbanned = ''UserUnbanned''"
| "type_name Subscription = ''Subscription''"
| "type_name GiftedSubscriptions = ''GiftedSubscriptions''"
| "type_name PinnedMessageCreated = ''PinnedMessageCreated''"
| "type_name StreamHost = ''StreamHost''"
| "type_name PollUpdate = ''PollUpdate''"
| "type_name PollDelete = ''PollDelete''"
| "type_name RewardRedeemed = ''RewardRedeemed''"
| "type_name KicksGifted = ''KicksGifted''"

text \<open>The cases of the switch, in the order of the source; the first equal label wins.\<close>

definition switch_cases :: "KickEvent list" where
  "switch_cases =
    [ChatMessage, MessageDeleted, UserBanned, UserUnbanned, Subscription, GiftedSubscriptions,
     PinnedMessageCreated, StreamHost, PollUpdate, PollDelete, RewardRedeemed, KicksGifted]"

fun parse_case :: "KickEvent \<Rightarrow> jsval \<Rightarrow> jsval option" where
  "parse_case ChatMessage = parseChatMessage"
| "parse_case MessageDeleted = parseMessageDeleted"
| "parse_case UserBanned = parseUserBanned"
| "parse_case UserUnbanned = parseUserUnbanned"
| "parse_case Subscription = parseSubscription"
| "parse_case GiftedSubscriptions = parseGiftedSubscriptions"
| "parse_case PinnedMessageCreated = parsePinnedMessageCreated"
| "parse_case StreamHost = parseStreamHost"
| "parse_case PollUpdate = parsePollUpdate"
| "parse_case PollDelete = parsePollDelete"
| "parse_case RewardRedeemed = parseRewardRedeemed"
| "parse_case KicksGifted = parseKicksGifted"

text \<open>
  \<^verbatim>\<open>LEGACY_EVENT_MAPPING[message.event] || message.event\<close>, as the string the switch
  compares with its labels; \<open>None\<close> when the value is an inherited function, which equals no
  label.
\<close>

definition normalizedEvent :: "host \<Rightarrow> string \<Rightarrow> string option" where
  "normalizedEvent h event =
    (case table_get (LEGACY_EVENT_MAPPING h) event of
       Own v \<Rightarrow> Some (if v \<noteq> [] then v else event)
     | Inherited \<Rightarrow> None
     | Absent \<Rightarrow> Some event)"

text \<open>
  The body of the outer \<^verbatim>\<open>try\<close>. The outer \<open>None\<close> is an exception, \<open>Some None\<close> is
  \<^verbatim>\<open>return null\<close>.
\<close>

definition parseMessage_try :: "host \<Rightarrow> string \<Rightarrow> envelope option option" where
  "parseMessage_try h rawMessage =
    (if rawMessage = [] \<or> trim_is_empty rawMessage then Some None
     else do {
       message \<leftarrow> JSON_parse h rawMessage;
       event \<leftarrow> get message ''event'';
       message_data \<leftarrow> get message ''data'';
       if \<not> truthy event \<or> message_data = Undefined then Some None
       else do {
         pusher \<leftarrow> startsWith event ''pusher:'';
         pusher_internal \<leftarrow> startsWith event ''pusher_internal:'';
         if pusher \<or> pusher_internal then Some None
         else if event = Str [] \<or> message_data = Str [] then Some None
         else (case JSON_parse_value h message_data of
                 None \<Rightarrow> Some None
               | Some eventData \<Rightarrow>
                  (case event of
                     Str originalEvent \<Rightarrow>
                       (case normalizedEvent h originalEvent of
                          None \<Rightarrow> Some None
                        | Some normalized \<Rightarrow>
                           (case find (\<lambda>k. KickEvent_value h k = normalized) switch_cases of
                              None \<Rightarrow> Some None
                            | Some k \<Rightarrow> do {
                                d \<leftarrow> parse_case k eventData;
                                Some (Some \<lparr>type = k, data = d,
                                  legacyType =
                                    (if originalEvent \<noteq> normalized then Some originalEvent
                                     else None)\<rparr>)
                              }))
                   | _ \<Rightarrow> None))
       }
     })"

text \<open>\<^verbatim>\<open>catch (error) { ...; return null; }\<close>\<close>

definition parseMessage :: "host \<Rightarrow> string \<Rightarrow> envelope option" where
  "parseMessage h rawMessage =
    (case parseMessage_try h rawMessage of None \<Rightarrow> None | Some result \<Rightarrow> result)"

text \<open>\<^verbatim>\<open>extractEventType\<close>, with its own \<^verbatim>\<open>try\<close> and \<^verbatim>\<open>catch\<close>.\<close>

definition extractEventType_try :: "host \<Rightarrow> string \<Rightarrow> string option option" where
  "extractEventType_try h rawMessage =
    (if rawMessage = [] \<or> trim_is_empty rawMessage then Some None
     else do {
       message \<leftarrow> JSON_parse h rawMessage;
       event \<leftarrow> get message ''event'';
       if \<not> truthy event then Some None
       else do {
         pusher \<leftarrow> startsWith event ''pusher:'';
         pusher_internal \<leftarrow> startsWith event ''pusher_internal:'';
         if pusher \<or> pusher_internal then Some None
         else (case event of Str e \<Rightarrow> Some (if e = [] then None else Some e) | _ \<Rightarrow> None)
       }
     })"

definition extractEventType :: "host \<Rightarrow> string \<Rightarrow> string option" where
  "extractEventType h rawMessage =
    (case extractEventType_try h rawMessage of None \<Rightarrow> None | Some result \<Rightarrow> result)"

text \<open>\<^verbatim>\<open>isValidMessage\<close>\<close>

definition isValidMessage :: "host \<Rightarrow> string \<Rightarrow> bool" where
  "isValidMessage h message =
    (if message = [] \<or> trim_is_empty message then False
     else (case JSON_parse h message of
             None \<Rightarrow> False
           | Some parsed \<Rightarrow>
              (case (get parsed ''event'', get parsed ''data'') of
                 (Some event, Some d) \<Rightarrow>
                   truthy event \<and> d \<noteq> Undefined \<and> event \<noteq> Str [] \<and> d \<noteq> Str []
               | _ \<Rightarrow> False)))"

section \<open>WebSocketManager\<close>

subsection \<open>Types\<close>

datatype ConnectionState = Disconnected | Connecting | Connected | Reconnecting | ErrorState

record KickWebSocketOptions =
  debug :: bool
  autoReconnect :: bool
  reconnectInterval :: nat
  connectionTimeout :: nat
  filteredEvents :: "string list"

text \<open>
  \<^verbatim>\<open>SubscriptionMessage\<close>: \<^verbatim>\<open>{ event: string; data?: { auth?: string; channel?: string } }\<close>.
  The fields carry a prefix, since \<open>data\<close> is a field of the parser's result already.
\<close>

record SubscriptionData =
  sd_auth :: "string option"
  sd_channel :: "string option"

record SubscriptionMessage =
  sm_event :: string
  sm_data :: "SubscriptionData option"

record WebSocketConfig =
  url :: "string option"
  params :: "(string \<times> string) list option"

text \<open>\<^verbatim>\<open>Partial<ExtendedKickWebSocketOptions>\<close>; \<open>None\<close> is an absent key.\<close>

record PartialOptions =
  p_debug :: "bool option"
  p_autoReconnect :: "bool option"
  p_reconnectInterval :: "nat option"
  p_connectionTimeout :: "nat option"
  p_filteredEvents :: "string list option"
  p_websocketConfig :: "WebSocketConfig option"
  p_customSubscriptions :: "string list option"
  p_subscriptionMessages :: "SubscriptionMessage list option"

text \<open>The values the manager passes to \<^verbatim>\<open>reject\<close> and to the \<^verbatim>\<open>error\<close> event.\<close>

datatype failure =
    ConnectionTimeout nat
  | WebSocketErrorEvent
  | WebSocketError
  | DisconnectedError int string
  | ChannelInfoError

text \<open>What the manager writes to a transport with \<^verbatim>\<open>ws.send(JSON.stringify(...))\<close>.\<close>

datatype frame =
    SubscriptionFrame SubscriptionMessage
  | UnsubscribeFrame string
  | PingFrame

datatype payload =
    RawMessage string
  | Ready string "string list"
  | Failure failure
  | Disconnect int string
  | SubscriptionSent SubscriptionMessage
  | PingSent
  | DomainEvent jsval

text \<open>
  The callbacks the manager hands to \<^verbatim>\<open>setTimeout\<close>: the reconnect of
  \<^verbatim>\<open>scheduleReconnect\<close>, and the timeout of \<^verbatim>\<open>connect\<close>, which holds the
  \<^verbatim>\<open>reject\<close> of its promise.
\<close>

datatype timer = ReconnectTimer | ConnectTimeout nat

text \<open>
  Who awaits a \<^verbatim>\<open>performConnection\<close>: \<^verbatim>\<open>connect\<close>, with its promise and its timeout for
  the \<^verbatim>\<open>catch\<close>, or the reconnect timer, whose \<^verbatim>\<open>catch\<close> only logs.
\<close>

datatype caller = FromConnect nat nat | FromReconnect

datatype ReadyState = CONNECTING | OPEN | CLOSING | CLOSED

text \<open>
  Everything the manager does to the outside is recorded, in order: events given to the
  \<^verbatim>\<open>EventEmitter\<close>, frames sent, transports created and closed, promises settled, timers set
  and cleared, channel lookups started.
\<close>

datatype effect =
    Emit string payload
  | Send nat frame
  | Close nat nat string
  | NewWebSocket nat string "(string \<times> string) list"
  | Resolve nat
  | Reject nat failure
  | SetTimeout nat timer nat
  | ClearTimeout nat
  | Fetch nat string

text \<open>
  The state is the fields of \<^verbatim>\<open>WebSocketManager\<close>, followed by what the manager shares with
  its environment: the \<^verbatim>\<open>once\<close> handlers that \<^verbatim>\<open>connect\<close> registers (each clears one
  timeout), the \<^verbatim>\<open>readyState\<close> of the transports created, the pending timers, the channel
  lookups in flight, the next fresh identifier and the effects so far. Transports, timers,
  promises and lookups are named by identifiers; a timer handle is always truthy, as the
  handles of \<^verbatim>\<open>setTimeout\<close> are. Console logging is left out.
\<close>

record state =
  ws :: "nat option"
  channelName :: string
  channelId :: int
  connectionState :: ConnectionState
  options :: KickWebSocketOptions
  reconnectTimer :: "nat option"
  isManualDisconnect :: bool
  connectionResolver :: "nat option"
  connectionRejector :: "nat option"
  websocketUrl :: string
  websocketParams :: "(string \<times> string) list"
  customSubscriptions :: "string list"
  subscriptionMessages :: "SubscriptionMessage list"
  once_ready :: "nat list"
  once_error :: "nat list"
  readyState :: "nat \<Rightarrow> ReadyState option"
  timers :: "(nat \<times> timer) list"
  fetches :: "(nat \<times> caller) list"
  next_id :: nat
  effects :: "effect list"

subsection \<open>Constants\<close>

definition backslash :: char where
  "backslash = CHR 0x5C"

text \<open>\<^verbatim>\<open>"App\\Events\\" + name\<close>, the strings of the enum declared beside the manager.\<close>

definition App_Events :: "string \<Rightarrow> string" where
  "App_Events name = ''App'' @ backslash # ''Events'' @ backslash # name"

definition EVENT_TYPE_MAP :: "(string \<times> string) list" where
  "EVENT_TYPE_MAP =
    [(App_Events ''ChatMessageEvent'', ''ChatMessage''),
     (App_Events ''MessageDeletedEvent'', ''MessageDeleted''),
     (App_Events ''UserBannedEvent'', ''UserBanned''),
     (App_Events ''UserUnbannedEvent'', ''UserUnbanned''),
     (App_Events ''SubscriptionEvent'', ''Subscription''),
     (App_Events ''GiftedSubscriptionsEvent'', ''GiftedSubscriptions''),
     (App_Events ''PinnedMessageCreatedEvent'', ''PinnedMessageCreated''),
     (App_Events ''StreamHostEvent'', ''StreamHost''),
     (App_Events ''PollUpdateEvent'', ''PollUpdate''),
     (App_Events ''PollDeleteEvent'', ''PollDelete'')]"

definition DEFAULT_WEBSOCKET_URL :: string where
  "DEFAULT_WEBSOCKET_URL = ''wss://ws-us2.pusher.com/app/32cbd69e4b950bf97679''"

definition DEFAULT_WS_PARAMS :: "(string \<times> string) list" where
  "DEFAULT_WS_PARAMS =
    [(''protocol'', ''7''), (''client'', ''js''), (''version'', ''8.4.0''), (''flash'', ''false'')]"

text \<open>\<^verbatim>\<open>{ ...a, ...b }\<close> on string tables.\<close>

definition spread :: "(string \<times> string) list \<Rightarrow> (string \<times> string) list \<Rightarrow> (string \<times> string) list" where
  "spread a b =
    map (\<lambda>(k, v). (k, case map_of b k of None \<Rightarrow> v | Some v' \<Rightarrow> v')) a
    @ filter (\<lambda>(k, v). map_of a k = None) b"

text \<open>The decimal text of a channel id in a template literal.\<close>

fun digits :: "nat \<Rightarrow> string" where
  "digits n = (if n < 10 then [char_of (48 + n)] else digits (n div 10) @ [char_of (48 + n mod 10)])"

definition number_text :: "int \<Rightarrow> string" where
  "number_text i = (if i < 0 then CHR ''-'' # digits (nat (- i)) else digits (nat i))"

subsection \<open>Construction\<close>

definition default_options :: KickWebSocketOptions where
  "default_options =
    \<lparr>debug = False, autoReconnect = True, reconnectInterval = 5000, connectionTimeout = 10000,
     filteredEvents = []\<rparr>"

definition merge_options :: "KickWebSocketOptions \<Rightarrow> PartialOptions \<Rightarrow> KickWebSocketOptions" where
  "merge_options old new =
    \<lparr>debug = (case p_debug new of None \<Rightarrow> debug old | Some v \<Rightarrow> v),
     autoReconnect = (case p_autoReconnect new of None \<Rightarrow> autoReconnect old | Some v \<Rightarrow> v),
     reconnectInterval =
       (case p_reconnectInterval new of None \<Rightarrow> reconnectInterval old | Some v \<Rightarrow> v),
     connectionTimeout =
       (case p_connectionTimeout new of None \<Rightarrow> connectionTimeout old | Some v \<Rightarrow> v),
     filteredEvents = (case p_filteredEvents new of None \<Rightarrow> filteredEvents old | Some v \<Rightarrow> v)\<rparr>"

definition no_options :: PartialOptions where
  "no_options =
    \<lparr>p_debug = None, p_autoReconnect = None, p_reconnectInterval = None,
     p_connectionTimeout = None, p_filteredEvents = None, p_websocketConfig = None,
     p_customSubscriptions = None, p_subscriptionMessages = None\<rparr>"

text \<open>
  \<^verbatim>\<open>new WebSocketManager(options)\<close>. An empty url is falsy and gives the default.
\<close>

definition new_manager :: "PartialOptions \<Rightarrow> state" where
  "new_manager opts =
    \<lparr>ws = None,
     channelName = [],
     channelId = 0,
     connectionState = Disconnected,
     options = merge_options default_options opts,
     reconnectTimer = None,
     isManualDisconnect = False,
     connectionResolver = None,
     connectionRejector = None,
     websocketUrl =
       (case p_websocketConfig opts of
          None \<Rightarrow> DEFAULT_WEBSOCKET_URL
        | Some c \<Rightarrow> (case url c of None \<Rightarrow> DEFAULT_WEBSOCKET_URL
                     | Some u \<Rightarrow> if u = [] then DEFAULT_WEBSOCKET_URL else u)),
     websocketParams =
       (case p_websocketConfig opts of
          None \<Rightarrow> DEFAULT_WS_PARAMS
        | Some c \<Rightarrow> (case params c of None \<Rightarrow> DEFAULT_WS_PARAMS
                     | Some ps \<Rightarrow> spread DEFAULT_WS_PARAMS ps)),
     customSubscriptions = (case p_customSubscriptions opts of None \<Rightarrow> [] | Some cs \<Rightarrow> cs),
     subscriptionMessages = (case p_subscriptionMessages opts of None \<Rightarrow> [] | Some ms \<Rightarrow> ms),
     once_ready = [],
     once_error = [],
     readyState = (\<lambda>w. None),
     timers = [],
     fetches = [],
     next_id = 0,
     effects = []\<rparr>"

subsection \<open>Timers, events and state\<close>

definition perform :: "effect \<Rightarrow> state \<Rightarrow> state" where
  "perform e s = s\<lparr>effects := effects s @ [e]\<rparr>"

text \<open>\<^verbatim>\<open>setTimeout(callback, delay)\<close>; the handle is \<open>next_id\<close> of the state before.\<close>

definition setTimeout :: "timer \<Rightarrow> nat \<Rightarrow> state \<Rightarrow> state" where
  "setTimeout callback delay s =
    perform (SetTimeout (next_id s) callback delay)
      (s\<lparr>timers := timers s @ [(next_id s, callback)], next_id := Suc (next_id s)\<rparr>)"

definition clearTimeout :: "nat \<Rightarrow> state \<Rightarrow> state" where
  "clearTimeout t s = perform (ClearTimeout t) (s\<lparr>timers := filter (\<lambda>(i, c). i \<noteq> t) (timers s)\<rparr>)"

text \<open>
  Modelled from the spec: the \<^verbatim>\<open>EventEmitter\<close> base class (\<^verbatim>\<open>./EventEmitter.js\<close> is not among
  the sources). \<^verbatim>\<open>emit\<close> calls the handlers of the event synchronously and returns, a
  handler's exception is caught, and a \<^verbatim>\<open>once\<close> handler is removed when it has run. The
  model records the event and runs the \<^verbatim>\<open>once\<close> handlers of \<^verbatim>\<open>connect\<close>, which clear
  its timeout; the caller's handlers are not part of the model.
\<close>

definition emit :: "string \<Rightarrow> payload \<Rightarrow> state \<Rightarrow> state" where
  "emit name p s =
    (let s1 = perform (Emit name p) s in
     if name = ''ready'' then (fold clearTimeout (once_ready s1) s1)\<lparr>once_ready := []\<rparr>
     else if name = ''error'' then (fold clearTimeout (once_error s1) s1)\<lparr>once_error := []\<rparr>
     else s1)"

definition setConnectionState :: "ConnectionState \<Rightarrow> state \<Rightarrow> state" where
  "setConnectionState st s = s\<lparr>connectionState := st\<rparr>"

text \<open>\<^verbatim>\<open>this.connectionRejector?.(e)\<close> and \<^verbatim>\<open>this.connectionResolver?.()\<close>\<close>

definition call_rejector :: "failure \<Rightarrow> state \<Rightarrow> state" where
  "call_rejector e s = (case connectionRejector s of None \<Rightarrow> s | Some p \<Rightarrow> perform (Reject p e) s)"

definition call_resolver :: "state \<Rightarrow> state" where
  "call_resolver s = (case connectionResolver s of None \<Rightarrow> s | Some p \<Rightarrow> perform (Resolve p) s)"

subsection \<open>Connecting\<close>

text \<open>
  \<^verbatim>\<open>performConnection\<close> up to its \<^verbatim>\<open>await\<close>: the state changes and the channel lookup
  starts. The rest runs when the lookup completes (\<open>fetch_done\<close>).
\<close>

definition performConnection :: "caller \<Rightarrow> state \<Rightarrow> state" where
  "performConnection c s =
    (let s1 = setConnectionState Connecting s in
     perform (Fetch (next_id s1) (channelName s1))
       (s1\<lparr>fetches := fetches s1 @ [(next_id s1, c)], next_id := Suc (next_id s1)\<rparr>))"

definition scheduleReconnect :: "state \<Rightarrow> state" where
  "scheduleReconnect s =
    (let s1 = (case reconnectTimer s of None \<Rightarrow> s | Some t \<Rightarrow> clearTimeout t s);
         s2 = setConnectionState Reconnecting s1;
         s3 = setTimeout ReconnectTimer (reconnectInterval (options s2)) s2
     in s3\<lparr>reconnectTimer := Some (next_id s2)\<rparr>)"

definition handleConnectionError :: "failure \<Rightarrow> state \<Rightarrow> state" where
  "handleConnectionError e s =
    (let s1 = setConnectionState ErrorState s;
         s2 = emit ''error'' (Failure e) s1;
         s3 = call_rejector e s2;
         s4 = s3\<lparr>connectionResolver := None, connectionRejector := None\<rparr>
     in if autoReconnect (options s4) \<and> \<not> isManualDisconnect s4 then scheduleReconnect s4 else s4)"

definition handleDisconnect :: "int \<Rightarrow> string \<Rightarrow> state \<Rightarrow> state" where
  "handleDisconnect code reason s =
    (let s1 = setConnectionState Disconnected s;
         s2 = emit ''disconnect'' (Disconnect code reason) s1;
         s3 = call_rejector (DisconnectedError code reason) s2;
         s4 = s3\<lparr>connectionResolver := None, connectionRejector := None\<rparr>
     in if autoReconnect (options s4) \<and> \<not> isManualDisconnect s4 then scheduleReconnect s4 else s4)"

text \<open>
  \<^verbatim>\<open>connect\<close>. The promise gets the identifier \<open>next_id\<close>, the timeout the one after it.
\<close>

definition connect :: "string \<Rightarrow> state \<Rightarrow> state" where
  "connect name s =
    (if connectionState s = Connected \<or> connectionState s = Connecting then s
     else
       (let p = next_id s;
            s1 = s\<lparr>channelName := name, isManualDisconnect := False, next_id := Suc p,
                   connectionResolver := Some p, connectionRejector := Some p\<rparr>;
            t = next_id s1;
            s2 = setTimeout (ConnectTimeout p) (connectionTimeout (options s1)) s1;
            s3 = s2\<lparr>once_ready := once_ready s2 @ [t], once_error := once_error s2 @ [t]\<rparr>
        in performConnection (FromConnect p t) s3))"

text \<open>The callback of the timeout of \<^verbatim>\<open>connect\<close>.\<close>

definition connect_timeout :: "nat \<Rightarrow> state \<Rightarrow> state" where
  "connect_timeout p s =
    (if connectionState s \<noteq> Connected
     then (let e = ConnectionTimeout (connectionTimeout (options s))
           in perform (Reject p e) (handleConnectionError e s))
     else s)"

text \<open>
  The rest of \<^verbatim>\<open>performConnection\<close>, run when the lookup completes: with the chatroom id
  of the channel, or with \<open>None\<close> when \<^verbatim>\<open>getChannelInfo\<close> threw or the answer had no
  chatroom. With an id the transport is created in state \<open>CONNECTING\<close> and becomes
  \<^verbatim>\<open>this.ws\<close> (the constructor is taken not to throw). A failure goes to
  \<^verbatim>\<open>handleConnectionError\<close> and on to the \<^verbatim>\<open>catch\<close> of the caller.
\<close>

definition fetch_done :: "caller \<Rightarrow> int option \<Rightarrow> state \<Rightarrow> state" where
  "fetch_done c result s =
    (case result of
       Some chatroom_id \<Rightarrow>
         (let s1 = s\<lparr>channelId := chatroom_id\<rparr>;
              w = next_id s1
          in perform (NewWebSocket w (websocketUrl s1) (websocketParams s1))
               (s1\<lparr>ws := Some w, readyState := (readyState s1)(w \<mapsto> CONNECTING),
                    next_id := Suc w\<rparr>))
     | None \<Rightarrow>
         (let e = ChannelInfoError;
              s1 = handleConnectionError e s
          in case c of
               FromConnect p t \<Rightarrow> perform (Reject p e) (clearTimeout t s1)
             | FromReconnect \<Rightarrow> s1))"

subsection \<open>Subscriptions\<close>

definition addCustomSubscriptions :: "string list \<Rightarrow> state \<Rightarrow> state" where
  "addCustomSubscriptions channels s = s\<lparr>customSubscriptions := customSubscriptions s @ channels\<rparr>"

definition addSubscriptionMessages :: "SubscriptionMessage list \<Rightarrow> state \<Rightarrow> state" where
  "addSubscriptionMessages messages s =
    s\<lparr>subscriptionMessages := subscriptionMessages s @ messages\<rparr>"

definition clearCustomSubscriptions :: "state \<Rightarrow> state" where
  "clearCustomSubscriptions s = s\<lparr>customSubscriptions := [], subscriptionMessages := []\<rparr>"

definition getCustomSubscriptions :: "state \<Rightarrow> string list \<times> SubscriptionMessage list" where
  "getCustomSubscriptions s = (customSubscriptions s, subscriptionMessages s)"

text \<open>
  \<^verbatim>\<open>sendSubscription\<close>. \<^verbatim>\<open>send\<close> on an open transport does not throw, so the
  \<^verbatim>\<open>catch\<close> is not reached.
\<close>

definition sendSubscription :: "SubscriptionMessage \<Rightarrow> state \<Rightarrow> state" where
  "sendSubscription message s =
    (case ws s of
       None \<Rightarrow> s
     | Some w \<Rightarrow>
        if readyState s w \<noteq> Some OPEN then s
        else emit ''subscriptionSent'' (SubscriptionSent message)
               (perform (Send w (SubscriptionFrame message)) s))"

definition subscribe_message :: "string \<Rightarrow> SubscriptionMessage" where
  "subscribe_message channel =
    \<lparr>sm_event = ''pusher:subscribe'',
     sm_data = Some \<lparr>sd_auth = Some [], sd_channel = Some channel\<rparr>\<rparr>"

definition auto_topics :: "int \<Rightarrow> string list" where
  "auto_topics i =
    [''chatroom_'' @ number_text i,
     ''chatrooms.'' @ number_text i @ ''.v2'',
     ''channel_'' @ number_text i,
     ''chatrooms.'' @ number_text i,
     ''channel.'' @ number_text i,
     ''predictions-channel-'' @ number_text i]"

text \<open>
  The two loops of \<^verbatim>\<open>subscribeToChannels\<close>. \<open>subscribed\<close> is the set
  \<^verbatim>\<open>subscribedChannels\<close>, kept in insertion order, which is the order of
  \<^verbatim>\<open>Array.from\<close>.
\<close>

fun subscribe_channels :: "string list \<Rightarrow> string list \<times> state \<Rightarrow> string list \<times> state" where
  "subscribe_channels [] (subscribed, s) = (subscribed, s)"
| "subscribe_channels (channel # rest) (subscribed, s) =
    (if channel \<notin> set subscribed
     then subscribe_channels rest
            (subscribed @ [channel], sendSubscription (subscribe_message channel) s)
     else subscribe_channels rest (subscribed, s))"

text \<open>\<^verbatim>\<open>message.data?.channel\<close>\<close>

definition message_channel :: "SubscriptionMessage \<Rightarrow> string option" where
  "message_channel m = (case sm_data m of None \<Rightarrow> None | Some d \<Rightarrow> sd_channel d)"

fun subscribe_messages ::
  "SubscriptionMessage list \<Rightarrow> string list \<times> state \<Rightarrow> string list \<times> state" where
  "subscribe_messages [] (subscribed, s) = (subscribed, s)"
| "subscribe_messages (message # rest) (subscribed, s) =
    (case message_channel message of
       Some channel \<Rightarrow>
         if channel \<noteq> [] \<and> channel \<notin> set subscribed
         then subscribe_messages rest (subscribed @ [channel], sendSubscription message s)
         else subscribe_messages rest (subscribed, s)
     | None \<Rightarrow> subscribe_messages rest (subscribed, s))"

definition subscribeToChannels :: "state \<Rightarrow> state" where
  "subscribeToChannels s =
    (case ws s of
       None \<Rightarrow> s
     | Some w \<Rightarrow>
        (let s1 = s\<lparr>customSubscriptions := customSubscriptions s @ auto_topics (channelId s)\<rparr>;
             (subscribed1, s2) = subscribe_channels (customSubscriptions s1) ([], s1);
             (subscribed2, s3) = subscribe_messages (subscriptionMessages s2) (subscribed1, s2);
             s4 = setConnectionState Connected s3;
             s5 = emit ''ready'' (Ready (channelName s4) subscribed2) s4;
             s6 = call_resolver s5
         in s6\<lparr>connectionResolver := None, connectionRejector := None\<rparr>))"

definition isConnected :: "state \<Rightarrow> bool" where
  "isConnected s =
    (connectionState s = Connected
     \<and> (case ws s of None \<Rightarrow> False | Some w \<Rightarrow> readyState s w = Some OPEN))"

definition subscribeToChannel :: "string \<Rightarrow> state \<Rightarrow> state" where
  "subscribeToChannel channel s =
    (if \<not> isConnected s then s else sendSubscription (subscribe_message channel) s)"

definition unsubscribeFromChannel :: "string \<Rightarrow> state \<Rightarrow> state" where
  "unsubscribeFromChannel channel s =
    (if \<not> isConnected s then s
     else (case ws s of None \<Rightarrow> s | Some w \<Rightarrow> perform (Send w (UnsubscribeFrame channel)) s))"

definition sendPing :: "state \<Rightarrow> state" where
  "sendPing s =
    (case ws s of
       None \<Rightarrow> s
     | Some w \<Rightarrow>
        if readyState s w \<noteq> Some OPEN then s
        else emit ''pingSent'' PingSent (perform (Send w PingFrame) s))"

subsection \<open>Inbound messages\<close>

text \<open>
  \<^verbatim>\<open>isEventFiltered\<close>. \<^verbatim>\<open>EVENT_TYPE_MAP[eventType]\<close> is a string for an own key, a
  function for a key of \<^verbatim>\<open>Object.prototype\<close>, which no list of strings includes, and
  \<^verbatim>\<open>undefined\<close> otherwise.
\<close>

definition isEventFiltered :: "state \<Rightarrow> string \<Rightarrow> bool" where
  "isEventFiltered s eventType =
    (if filteredEvents (options s) = [] then False
     else (case table_get (map_of EVENT_TYPE_MAP) eventType of
             Own standardEventType \<Rightarrow> standardEventType \<notin> set (filteredEvents (options s))
           | Inherited \<Rightarrow> True
           | Absent \<Rightarrow> False))"

text \<open>
  The first \<^verbatim>\<open>try\<close> of \<^verbatim>\<open>handleMessage\<close>: the event name when the message is a system
  event of the relay, \<open>Some None\<close> when it is not, \<open>None\<close> when something threw (the
  \<^verbatim>\<open>catch\<close> is empty and the message is processed further).
\<close>

definition system_event :: "host \<Rightarrow> string \<Rightarrow> string option option" where
  "system_event h rawMessage = do {
     message \<leftarrow> JSON_parse h rawMessage;
     event \<leftarrow> get message ''event'';
     (case event of
        Undefined \<Rightarrow> Some None
      | Null \<Rightarrow> Some None
      | Str e \<Rightarrow> Some (if prefix ''pusher:'' e \<or> prefix ''pusher_internal:'' e then Some e else None)
      | _ \<Rightarrow> None)
   }"

definition handleMessage :: "host \<Rightarrow> string \<Rightarrow> state \<Rightarrow> state" where
  "handleMessage h rawMessage s =
    (let s1 = emit ''rawMessage'' (RawMessage rawMessage) s in
     case system_event h rawMessage of
       Some (Some e) \<Rightarrow> if e = ''pusher:pong'' then sendPing s1 else s1
     | _ \<Rightarrow>
        if (case extractEventType h rawMessage of
              None \<Rightarrow> False
            | Some eventType \<Rightarrow> isEventFiltered s1 eventType)
        then s1
        else (case parseMessage h rawMessage of
                None \<Rightarrow> s1
              | Some parsedMessage \<Rightarrow>
                  emit (type_name (type parsedMessage)) (DomainEvent (data parsedMessage)) s1))"

subsection \<open>Disconnecting and configuration\<close>

text \<open>\<^verbatim>\<open>ws.close(code, reason)\<close> starts the closing handshake of a transport not yet closing.\<close>

definition close_transport :: "nat \<Rightarrow> nat \<Rightarrow> string \<Rightarrow> state \<Rightarrow> state" where
  "close_transport w code reason s =
    perform (Close w code reason)
      (if readyState s w = Some CONNECTING \<or> readyState s w = Some OPEN
       then s\<lparr>readyState := (readyState s)(w \<mapsto> CLOSING)\<rparr> else s)"

definition disconnect :: "state \<Rightarrow> state" where
  "disconnect s =
    (let s1 = s\<lparr>isManualDisconnect := True\<rparr>;
         s2 = (case reconnectTimer s1 of
                 None \<Rightarrow> s1
               | Some t \<Rightarrow> (clearTimeout t s1)\<lparr>reconnectTimer := None\<rparr>);
         s3 = (case ws s2 of
                 None \<Rightarrow> s2
               | Some w \<Rightarrow> (close_transport w 1000 ''Manual disconnect'' s2)\<lparr>ws := None\<rparr>)
     in setConnectionState Disconnected s3)"

definition setWebSocketConfig :: "WebSocketConfig \<Rightarrow> state \<Rightarrow> state" where
  "setWebSocketConfig config s =
    (let s1 = (case url config of
                 None \<Rightarrow> s
               | Some u \<Rightarrow> if u = [] then s else s\<lparr>websocketUrl := u\<rparr>)
     in case params config of
          None \<Rightarrow> s1
        | Some ps \<Rightarrow> s1\<lparr>websocketParams := spread (websocketParams s1) ps\<rparr>)"

definition resetWebSocketConfig :: "state \<Rightarrow> state" where
  "resetWebSocketConfig s =
    s\<lparr>websocketUrl := DEFAULT_WEBSOCKET_URL, websocketParams := DEFAULT_WS_PARAMS\<rparr>"

definition updateOptions :: "PartialOptions \<Rightarrow> state \<Rightarrow> state" where
  "updateOptions newOptions s =
    (let s1 = s\<lparr>options := merge_options (options s) newOptions\<rparr>;
         s2 = (case p_websocketConfig newOptions of
                 None \<Rightarrow> s1 | Some c \<Rightarrow> setWebSocketConfig c s1);
         s3 = (case p_customSubscriptions newOptions of
                 None \<Rightarrow> s2 | Some cs \<Rightarrow> addCustomSubscriptions cs s2)
     in case p_subscriptionMessages newOptions of
          None \<Rightarrow> s3 | Some ms \<Rightarrow> addSubscriptionMessages ms s3)"

subsection \<open>Runs\<close>

text \<open>
  What can happen to a manager: a call of one of its public methods, the completion of a
  channel lookup, an event of a transport it created, or a timer firing. The handlers of a
  transport are those of \<^verbatim>\<open>setupWebSocketHandlers\<close>; they use \<^verbatim>\<open>this.ws\<close>, not the
  transport the event comes from. A transport opens when it is connecting, delivers messages
  when it is open, and reports an error or closes when it is not closed already; a timer
  fires when it is pending, and a lookup completes when it is in flight. Anything else
  leaves the state as it is.
\<close>

datatype event =
    CallConnect string
  | CallDisconnect
  | CallAddCustomSubscriptions "string list"
  | CallAddSubscriptionMessages "SubscriptionMessage list"
  | CallClearCustomSubscriptions
  | CallSetWebSocketConfig WebSocketConfig
  | CallResetWebSocketConfig
  | CallUpdateOptions PartialOptions
  | CallSubscribeToChannel string
  | CallUnsubscribeFromChannel string
  | CallSendPing
  | FetchDone nat "int option"
  | WsOpen nat
  | WsMessage nat string
  | WsClose nat int string
  | WsError nat
  | TimerFired nat

text \<open>\<^verbatim>\<open>ws.onerror\<close>\<close>

definition onerror :: "state \<Rightarrow> state" where
  "onerror s = call_rejector WebSocketError (emit ''error'' (Failure WebSocketErrorEvent) s)"

definition timer_fired :: "nat \<Rightarrow> state \<Rightarrow> state" where
  "timer_fired t s =
    (case map_of (timers s) t of
       None \<Rightarrow> s
     | Some callback \<Rightarrow>
        (let s1 = s\<lparr>timers := filter (\<lambda>(i, c). i \<noteq> t) (timers s)\<rparr> in
         case callback of
           ReconnectTimer \<Rightarrow> performConnection FromReconnect s1
         | ConnectTimeout p \<Rightarrow> connect_timeout p s1))"

fun step :: "host \<Rightarrow> event \<Rightarrow> state \<Rightarrow> state" where
  "step h (CallConnect name) s = connect name s"
| "step h CallDisconnect s = disconnect s"
| "step h (CallAddCustomSubscriptions channels) s = addCustomSubscriptions channels s"
| "step h (CallAddSubscriptionMessages messages) s = addSubscriptionMessages messages s"
| "step h CallClearCustomSubscriptions s = clearCustomSubscriptions s"
| "step h (CallSetWebSocketConfig config) s = setWebSocketConfig config s"
| "step h CallResetWebSocketConfig s = resetWebSocketConfig s"
| "step h (CallUpdateOptions newOptions) s = updateOptions newOptions s"
| "step h (CallSubscribeToChannel channel) s = subscribeToChannel channel s"
| "step h (CallUnsubscribeFromChannel channel) s = unsubscribeFromChannel channel s"
| "step h CallSendPing s = sendPing s"
| "step h (FetchDone f result) s =
    (case map_of (fetches s) f of
       None \<Rightarrow> s
     | Some c \<Rightarrow> fetch_done c result (s\<lparr>fetches := filter (\<lambda>(i, c). i \<noteq> f) (fetches s)\<rparr>))"
| "step h (WsOpen w) s =
    (if readyState s w = Some CONNECTING
     then subscribeToChannels (s\<lparr>readyState := (readyState s)(w \<mapsto> OPEN)\<rparr>) else s)"
| "step h (WsMessage w rawMessage) s =
    (if readyState s w = Some OPEN then handleMessage h rawMessage s else s)"
| "step h (WsClose w code reason) s =
    (if readyState s w \<noteq> None \<and> readyState s w \<noteq> Some CLOSED
     then handleDisconnect code reason (s\<lparr>readyState := (readyState s)(w \<mapsto> CLOSED)\<rparr>) else s)"
| "step h (WsError w) s =
    (if readyState s w \<noteq> None \<and> readyState s w \<noteq> Some CLOSED then onerror s else s)"
| "step h (TimerFired t) s = timer_fired t s"

definition run :: "host \<Rightarrow> event list \<Rightarrow> state \<Rightarrow> state" where
  "run h es s = fold (step h) es s"

section \<open>Sample tables and texts\<close>

text \<open>
  Tables and texts to evaluate the model on. Eleven strings of \<open>KickEvent_sample\<close> are those
  of the enum declarations in \<^verbatim>\<open>index.ts\<close> and \<^verbatim>\<open>MessageParser.ts\<close>; the string of
  \<open>KicksGifted\<close> and the entry of the legacy table are examples. In the texts a bar stands
  for a backslash, which a string literal cannot hold. \<open>JSON_sample\<close> is \<^verbatim>\<open>JSON.parse\<close>
  on the texts it lists.
\<close>

fun KickEvent_sample :: "KickEvent \<Rightarrow> string" where
  "KickEvent_sample ChatMessage = App_Events ''ChatMessageEvent''"
| "KickEvent_sample MessageDeleted = App_Events ''MessageDeletedEvent''"
| "KickEvent_sample UserBanned = App_Events ''UserBannedEvent''"
| "KickEvent_sample UserUnbanned = App_Events ''UserUnbannedEvent''"
| "KickEvent_sample Subscription = App_Events ''SubscriptionEvent''"
| "KickEvent_sample GiftedSubscriptions = App_Events ''GiftedSubscriptionsEvent''"
| "KickEvent_sample PinnedMessageCreated = App_Events ''PinnedMessageCreatedEvent''"
| "KickEvent_sample StreamHost = App_Events ''StreamHostEvent''"
| "KickEvent_sample PollUpdate = App_Events ''PollUpdateEvent''"
| "KickEvent_sample PollDelete = App_Events ''PollDeleteEvent''"
| "KickEvent_sample RewardRedeemed = ''RewardRedeemedEvent''"
| "KickEvent_sample KicksGifted = ''KicksGifted''"

definition bars :: "string \<Rightarrow> string" where
  "bars s = map (\<lambda>c. if c = CHR ''|'' then backslash else c) s"

definition chat_data_text :: string where
  \<open>chat_data_text = ''{"content":"gg [emote:123:Kappa] well played","sender":{}}''\<close>

definition chat_data :: jsval where
  "chat_data = Obj [(''content'', Str ''gg [emote:123:Kappa] well played''), (''sender'', Obj [])]"

definition chat_text :: string where
  \<open>chat_text = bars ''{"event":"App||Events||ChatMessageEvent","data":"{|"content|":|"gg [emote:123:Kappa] well played|",|"sender|":{}}"}''\<close>

definition legacy_chat_text :: string where
  \<open>legacy_chat_text = bars ''{"event":"ChatMessage","data":"{|"content|":|"gg [emote:123:Kappa] well played|",|"sender|":{}}"}''\<close>

definition banned_data_text :: string where
  \<open>banned_data_text = ''{"banned_username":"x"}''\<close>

definition banned_text :: string where
  \<open>banned_text = bars ''{"event":"App||Events||UserBannedEvent","data":"{|"banned_username|":|"x|"}"}''\<close>

definition reward_text :: string where
  \<open>reward_text = ''{"event":"RewardRedeemedEvent","data":"{}"}''\<close>

definition pong_text :: string where
  \<open>pong_text = ''{"event":"pusher:pong","data":"{}"}''\<close>

definition JSON_sample :: "string \<Rightarrow> jsval option" where
  "JSON_sample text =
    map_of
      [(chat_text,
        Obj [(''event'', Str (App_Events ''ChatMessageEvent'')), (''data'', Str chat_data_text)]),
       (legacy_chat_text,
        Obj [(''event'', Str ''ChatMessage''), (''data'', Str chat_data_text)]),
       (chat_data_text, chat_data),
       (banned_text,
        Obj [(''event'', Str (App_Events ''UserBannedEvent'')), (''data'', Str banned_data_text)]),
       (banned_data_text, Obj [(''banned_username'', Str ''x'')]),
       (reward_text,
        Obj [(''event'', Str ''RewardRedeemedEvent''), (''data'', Str ''{}'')]),
       (pong_text,
        Obj [(''event'', Str ''pusher:pong''), (''data'', Str ''{}'')]),
       (''{}'', Obj [])]
      text"

definition sample :: host where
  "sample =
    \<lparr>JSON_parse = JSON_sample,
     ToString = (\<lambda>v. ''[object Object]''),
     KickEvent_value = KickEvent_sample,
     LEGACY_EVENT_MAPPING = map_of [(''ChatMessage'', App_Events ''ChatMessageEvent'')]\<rparr>"

section \<open>Notions used in the statements\<close>

text \<open>
  An inline emote placeholder \<^verbatim>\<open>[emote:<digits>:<word>]\<close>, with at least one digit and at
  least one word character.
\<close>

definition placeholder :: "string \<Rightarrow> string \<Rightarrow> string" where
  "placeholder ds w = ''[emote:'' @ ds @ '':'' @ w @ '']''"

definition is_placeholder :: "string \<Rightarrow> string \<Rightarrow> bool" where
  "is_placeholder ds w = (ds \<noteq> [] \<and> list_all is_digit ds \<and> w \<noteq> [] \<and> list_all is_word w)"

text \<open>
  The shape of each event of \<^verbatim>\<open>types.ts\<close>: the keys of the object, in order, and the
  literal in its \<^verbatim>\<open>type\<close> field.
\<close>

fun type_literal :: "KickEvent \<Rightarrow> string" where
  "type_literal ChatMessage = ''message''"
| "type_literal MessageDeleted = ''message_deleted''"
| "type_literal UserBanned = ''user_banned''"
| "type_literal UserUnbanned = ''user_unbanned''"
| "type_literal Subscription = ''subscription''"
| "type_literal GiftedSubscriptions = ''gifted_subscriptions''"
| "type_literal PinnedMessageCreated = ''pinned_message_created''"
| "type_literal StreamHost = ''stream_host''"
| "type_literal PollUpdate = ''poll_update''"
| "type_literal PollDelete = ''poll_delete''"
| "type_literal RewardRedeemed = ''reward_redeemed''"
| "type_literal KicksGifted = ''kicks_gifted''"

fun event_keys :: "KickEvent \<Rightarrow> string list" where
  "event_keys ChatMessage = [''id'', ''content'', ''type'', ''created_at'', ''sender'', ''chatroom'']"
| "event_keys MessageDeleted = [''message_id'', ''chatroom_id'', ''type'']"
| "event_keys UserBanned = [''username'', ''type'']"
| "event_keys UserUnbanned = [''username'', ''type'']"
| "event_keys Subscription = [''username'', ''type'']"
| "event_keys GiftedSubscriptions = [''gifted_by'', ''recipients'', ''type'']"
| "event_keys PinnedMessageCreated = [''message'', ''type'']"
| "event_keys StreamHost = [''hoster'', ''hosted_channel'', ''type'']"
| "event_keys PollUpdate = [''poll_id'', ''question'', ''options'', ''type'']"
| "event_keys PollDelete = [''poll_id'', ''type'']"
| "event_keys RewardRedeemed =
    [''reward_title'', ''user_id'', ''channel_id'', ''username'', ''user_input'',
     ''reward_background_color'', ''type'']"
| "event_keys KicksGifted = [''gift_transaction_id'', ''message'', ''sender'', ''gift'', ''type'']"

definition has_shape :: "KickEvent \<Rightarrow> jsval \<Rightarrow> bool" where
  "has_shape k v =
    (case v of
       Obj kvs \<Rightarrow>
         map fst kvs = event_keys k \<and> map_of kvs ''type'' = Some (Str (type_literal k))
     | _ \<Rightarrow> False)"

text \<open>
  A well-formed result of \<^verbatim>\<open>parseMessage\<close>: the data is an object of the shape of the
  event the type names, and the legacy type, when present, is a non-empty string.
\<close>

definition well_formed :: "envelope \<Rightarrow> bool" where
  "well_formed e = (has_shape (type e) (data e) \<and> legacyType e \<noteq> Some [])"

text \<open>An event name with one of the two prefixes the relay reserves.\<close>

definition system_name :: "string \<Rightarrow> bool" where
  "system_name e = (prefix ''pusher:'' e \<or> prefix ''pusher_internal:'' e)"

text \<open>
  \<open>alias\<close> is a bare name that the legacy table maps to the other name \<open>name\<close>, which the
  table leaves as it is; neither is a system event.
\<close>

definition legacy_alias :: "host \<Rightarrow> string \<Rightarrow> string \<Rightarrow> bool" where
  "legacy_alias h alias name =
    (LEGACY_EVENT_MAPPING h alias = Some name \<and> alias \<noteq> [] \<and> name \<noteq> [] \<and> name \<noteq> alias
     \<and> normalizedEvent h name = Some name \<and> \<not> system_name alias \<and> \<not> system_name name)"

text \<open>The effects of one call, and the topics of the subscription frames among effects.\<close>

definition effects_of :: "(state \<Rightarrow> state) \<Rightarrow> state \<Rightarrow> effect list" where
  "effects_of f s = drop (length (effects s)) (effects (f s))"

fun sent_frame :: "effect \<Rightarrow> frame option" where
  "sent_frame (Send w f) = Some f"
| "sent_frame e = None"

fun frame_topic :: "frame \<Rightarrow> string option" where
  "frame_topic (SubscriptionFrame m) = message_channel m"
| "frame_topic f = None"

definition sent_frames :: "effect list \<Rightarrow> frame list" where
  "sent_frames es = List.map_filter sent_frame es"

definition sent_topics :: "effect list \<Rightarrow> string list" where
  "sent_topics es = List.map_filter frame_topic (sent_frames es)"

text \<open>The events a list of effects gives to the emitter, and the domain events among them.\<close>

fun emitted :: "effect \<Rightarrow> (string \<times> payload) option" where
  "emitted (Emit name p) = Some (name, p)"
| "emitted e = None"

definition emissions :: "effect list \<Rightarrow> (string \<times> payload) list" where
  "emissions es = List.map_filter emitted es"

definition domain_emissions :: "effect list \<Rightarrow> (string \<times> payload) list" where
  "domain_emissions es = filter (\<lambda>(name, p). name \<in> set (map type_name switch_cases)) (emissions es)"

text \<open>The calls of the \<^verbatim>\<open>reject\<close> functions of promises among effects.\<close>

fun rejected :: "effect \<Rightarrow> (nat \<times> failure) option" where
  "rejected (Reject p e) = Some (p, e)"
| "rejected e = None"

definition rejections :: "effect list \<Rightarrow> (nat \<times> failure) list" where
  "rejections es = List.map_filter rejected es"

text \<open>A manager that listens to chat messages only.\<close>

definition chat_only :: state where
  "chat_only = new_manager (no_options\<lparr>p_filteredEvents := Some [''ChatMessage'']\<rparr>)"





text \<open>The reconnect timers that are pending.\<close>

definition scheduled_reconnects :: "state \<Rightarrow> nat list" where
  "scheduled_reconnects s = map fst (filter (\<lambda>(i, c). c = ReconnectTimer) (timers s))"

text \<open>
  A manager that was disconnected by hand and has no reconnect under way: the flag is set, no
  reconnect timer is stored or pending, and the state is not \<^verbatim>\<open>reconnecting\<close>.
\<close>

definition quiet :: "state \<Rightarrow> bool" where
  "quiet s =
    (isManualDisconnect s \<and> reconnectTimer s = None \<and> scheduled_reconnects s = []
     \<and> connectionState s \<noteq> Reconnecting)"


subsection \<open>Invariants used in the proofs\<close>

text \<open>
  The invariant of the two loops: the topics of the frames sent so far are distinct, each
  was added to the set of subscribed channels by this loop, and every frame sent names a
  topic.
\<close>

definition sends_new :: "string list \<Rightarrow> string list \<Rightarrow> state \<Rightarrow> state \<Rightarrow> bool" where
  "sends_new sub sub' s s' =
    (\<exists>new. s' = s\<lparr>effects := effects s @ new\<rparr>
      \<and> distinct (sent_topics new) \<and> set (sent_topics new) \<subseteq> set sub' - set sub
      \<and> set sub \<subseteq> set sub' \<and> length (sent_frames new) = length (sent_topics new))"

text \<open>
  From \<open>s\<close> to \<open>s'\<close> identifiers are only used up, and every timer pending in \<open>s'\<close> was
  pending in \<open>s\<close> or has an identifier that was fresh in \<open>s\<close>.
\<close>

definition extends :: "state \<Rightarrow> state \<Rightarrow> bool" where
  "extends s s' =
    (next_id s \<le> next_id s'
     \<and> (\<forall>x \<in> set (timers s'). x \<in> set (timers s) \<or> (next_id s \<le> fst x \<and> fst x < next_id s')))"


text \<open>The only reconnect timer that can be pending is the one in \<^verbatim>\<open>reconnectTimer\<close>.\<close>

definition one_reconnect :: "state \<Rightarrow> bool" where
  "one_reconnect s = (\<forall>i. (i, ReconnectTimer) \<in> set (timers s) \<longrightarrow> reconnectTimer s = Some i)"

section \<open>Properties of the parser\<close>

subsection \<open>The emote scanner\<close>

lemma strip_prefix_Some: "strip_prefix p s = Some r \<longleftrightarrow> s = p @ r"
  by (induction p s rule: strip_prefix.induct) auto

lemma colon_not_digit: "\<not> is_digit CHR '':''"
  by (simp add: is_digit_def code_unit_def)

lemma bracket_not_word: "\<not> is_word CHR '']''"
  by (simp add: is_word_def is_digit_def code_unit_def)

lemma takeWhile_run: "list_all P xs \<Longrightarrow> \<not> P y \<Longrightarrow> takeWhile P (xs @ y # ys) = xs"
  by (induction xs) auto

lemma dropWhile_run: "list_all P xs \<Longrightarrow> \<not> P y \<Longrightarrow> dropWhile P (xs @ y # ys) = y # ys"
  by (induction xs) auto

lemma list_all_takeWhile: "list_all P (takeWhile P xs)"
  by (induction xs) auto

lemma match_emote_placeholder:
  assumes "is_placeholder ds w"
  shows "match_emote (placeholder ds w @ rest) = Some (w, rest)"
proof -
  have d: "takeWhile is_digit (ds @ CHR '':'' # w @ CHR '']'' # rest) = ds"
    "dropWhile is_digit (ds @ CHR '':'' # w @ CHR '']'' # rest) = CHR '':'' # w @ CHR '']'' # rest"
    using assms by (simp_all add: is_placeholder_def takeWhile_run dropWhile_run colon_not_digit)
  have w: "takeWhile is_word (w @ CHR '']'' # rest) = w"
    "dropWhile is_word (w @ CHR '']'' # rest) = CHR '']'' # rest"
    using assms by (simp_all add: is_placeholder_def takeWhile_run dropWhile_run bracket_not_word)
  show ?thesis
    using assms by (simp add: match_emote_def placeholder_def d w is_placeholder_def)
qed

lemma match_emote_SomeD:
  assumes "match_emote s = Some (w, rest)"
  shows "\<exists>ds. is_placeholder ds w \<and> s = placeholder ds w @ rest"
proof -
  from assms obtain r1 where r1: "s = ''[emote:'' @ r1"
    by (auto simp: match_emote_def strip_prefix_Some split: option.splits)
  let ?ds = "takeWhile is_digit r1"
  from assms r1 obtain r2 where r2: "?ds \<noteq> []" "dropWhile is_digit r1 = CHR '':'' # r2"
    by (auto simp: match_emote_def Let_def split: option.splits list.splits if_splits)
  from assms r1 r2 have w: "w = takeWhile is_word r2" "w \<noteq> []" "dropWhile is_word r2 = CHR '']'' # rest"
    by (auto simp: match_emote_def Let_def split: option.splits list.splits if_splits)
  have "r1 = ?ds @ CHR '':'' # r2"
    using takeWhile_dropWhile_id [of is_digit r1] r2 by simp
  moreover have "r2 = w @ CHR '']'' # rest"
    using takeWhile_dropWhile_id [of is_word r2] w by simp
  ultimately have "s = placeholder ?ds w @ rest"
    using r1 by (simp add: placeholder_def)
  moreover have "is_placeholder ?ds w"
    using r2 w by (simp add: is_placeholder_def list_all_takeWhile)
  ultimately show ?thesis by blast
qed

lemma replace_emotes_drop: "replace_emotes k s = replace_emotes 0 (drop k s)"
  by (induction k s rule: replace_emotes.induct) auto

lemma replace_emotes_match:
  assumes "match_emote s = Some (w, rest)"
  shows "replace_emotes 0 s = w @ replace_emotes 0 rest"
proof -
  from match_emote_SomeD [OF assms] obtain ds where ds: "s = placeholder ds w @ rest" by blast
  define m where "m = ''emote:'' @ ds @ '':'' @ w @ '']''"
  have s: "s = CHR ''['' # m @ rest"
    using ds by (simp add: placeholder_def m_def)
  have "drop (length (m @ rest) - length rest) (m @ rest) = rest"
    by simp
  then show ?thesis
    using assms unfolding s by (simp add: replace_emotes_drop [of "length m"])
qed

lemma bracket_not_digit: "\<not> is_digit CHR ''[''"
  by (simp add: is_digit_def code_unit_def)

lemma bracket_not_word': "\<not> is_word CHR ''[''"
  by (simp add: is_word_def is_digit_def code_unit_def)

lemma list_all_not_mem: "list_all P xs \<Longrightarrow> \<not> P y \<Longrightarrow> y \<notin> set xs"
  by (auto simp: list_all_iff)

lemma placeholder_bracket:
  assumes "is_placeholder ds w"
  shows "\<exists>m. placeholder ds w = CHR ''['' # m \<and> CHR ''['' \<notin> set m"
  using assms list_all_not_mem [of is_digit ds "CHR ''[''"] list_all_not_mem [of is_word w "CHR ''[''"]
  by (simp add: placeholder_def is_placeholder_def bracket_not_digit bracket_not_word')

lemma match_emote_extend:
  assumes "match_emote s = Some (w, r)"
  shows "match_emote (s @ t) = Some (w, r @ t)"
proof -
  from match_emote_SomeD [OF assms] obtain ds where "is_placeholder ds w" "s = placeholder ds w @ r"
    by blast
  then show ?thesis
    using match_emote_placeholder [of ds w "r @ t"] by simp
qed

lemma match_emote_restrict:
  assumes "match_emote (s @ CHR ''['' # ys) = Some (w, r)" and "s \<noteq> []"
  shows "\<exists>r'. r = r' @ CHR ''['' # ys \<and> match_emote s = Some (w, r')"
proof -
  from match_emote_SomeD [OF assms(1)] obtain ds
    where ph: "is_placeholder ds w" and eq: "s @ CHR ''['' # ys = placeholder ds w @ r"
    by blast
  from placeholder_bracket [OF ph] obtain m
    where m: "placeholder ds w = CHR ''['' # m" "CHR ''['' \<notin> set m" by blast
  from assms(2) obtain c cs where s: "s = c # cs" by (cases s) auto
  from eq m s have eq': "cs @ CHR ''['' # ys = m @ r" and c: "c = CHR ''[''" by simp_all
  from eq' obtain us where "(cs = m @ us \<and> us @ CHR ''['' # ys = r) \<or> (cs @ us = m \<and> CHR ''['' # ys = us @ r)"
    by (auto simp: append_eq_append_conv2)
  then obtain r' where r': "cs = m @ r'" "r = r' @ CHR ''['' # ys"
  proof
    assume "cs = m @ us \<and> us @ CHR ''['' # ys = r"
    then show ?thesis using that by blast
  next
    assume a: "cs @ us = m \<and> CHR ''['' # ys = us @ r"
    show ?thesis
    proof (cases us)
      case Nil
      with a that [of "[]"] show ?thesis by simp
    next
      case (Cons u us')
      with a have "u = CHR ''[''" by simp
      with a Cons m(2) show ?thesis by auto
    qed
  qed
  have "s = placeholder ds w @ r'"
    using s c r'(1) m(1) by simp
  then have "match_emote s = Some (w, r')"
    using match_emote_placeholder [OF ph, of r'] by simp
  with r'(2) show ?thesis by blast
qed

lemma replace_emotes_append_bracket:
  "replace_emotes 0 (pre @ CHR ''['' # ys) = replace_emotes 0 pre @ replace_emotes 0 (CHR ''['' # ys)"
proof (induction pre rule: length_induct)
  case (1 pre)
  show ?case
  proof (cases pre)
    case Nil
    then show ?thesis by simp
  next
    case (Cons c cs)
    show ?thesis
    proof (cases "match_emote pre")
      case None
      have "match_emote (pre @ CHR ''['' # ys) = None"
      proof (rule ccontr)
        assume "match_emote (pre @ CHR ''['' # ys) \<noteq> None"
        then obtain w r where "match_emote (pre @ CHR ''['' # ys) = Some (w, r)" by auto
        from match_emote_restrict [OF this] Cons None show False by auto
      qed
      with None Cons 1 show ?thesis by simp
    next
      case (Some a)
      obtain w r where a: "a = (w, r)" by (cases a)
      from match_emote_SomeD [of pre w r] Some a have len: "length r < length pre"
        by (auto simp: placeholder_def)
      have "replace_emotes 0 (pre @ CHR ''['' # ys) = w @ replace_emotes 0 (r @ CHR ''['' # ys)"
        using match_emote_extend [of pre w r "CHR ''['' # ys"] Some a
        by (simp add: replace_emotes_match)
      also have "\<dots> = w @ replace_emotes 0 r @ replace_emotes 0 (CHR ''['' # ys)"
        using 1 len by simp
      also have "\<dots> = replace_emotes 0 pre @ replace_emotes 0 (CHR ''['' # ys)"
        using Some a by (simp add: replace_emotes_match)
      finally show ?thesis .
    qed
  qed
qed

lemma replace_emotes_placeholder:
  assumes "is_placeholder ds w"
  shows "replace_emotes 0 (pre @ placeholder ds w @ post) = replace_emotes 0 pre @ w @ replace_emotes 0 post"
proof -
  from placeholder_bracket [OF assms] obtain m where m: "placeholder ds w = CHR ''['' # m" by blast
  have "replace_emotes 0 (pre @ placeholder ds w @ post)
        = replace_emotes 0 pre @ replace_emotes 0 (placeholder ds w @ post)"
    using replace_emotes_append_bracket [of pre "m @ post"] m by simp
  then show ?thesis
    using match_emote_placeholder [OF assms, of post] by (simp add: replace_emotes_match)
qed
lemma parse_case_shape: "parse_case k d = Some v \<Longrightarrow> has_shape k v"
  by (cases k)
     (auto simp: has_shape_def parseChatMessage_def parseMessageDeleted_def parseUserBanned_def
        parseUserUnbanned_def parseSubscription_def parseGiftedSubscriptions_def
        parsePinnedMessageCreated_def parseStreamHost_def parsePollUpdate_def parsePollDelete_def
        parseRewardRedeemed_def parseKicksGifted_def
        split: Option.bind_splits if_splits)

lemma startsWith_Some: "startsWith v p = Some b \<longleftrightarrow> (\<exists>s. v = Str s \<and> b = prefix p s)"
  by (cases v) auto

lemma parseMessage_Some_iff:
  "parseMessage h rawMessage = Some e \<longleftrightarrow>
    (\<not> trim_is_empty rawMessage \<and>
     (\<exists>message ev d eventData normalized k v.
        JSON_parse h rawMessage = Some message \<and>
        get message ''event'' = Some (Str ev) \<and> ev \<noteq> [] \<and> \<not> system_name ev \<and>
        get message ''data'' = Some d \<and> d \<noteq> Undefined \<and> d \<noteq> Str [] \<and>
        JSON_parse_value h d = Some eventData \<and>
        normalizedEvent h ev = Some normalized \<and>
        find (\<lambda>k. KickEvent_value h k = normalized) switch_cases = Some k \<and>
        parse_case k eventData = Some v \<and>
        e = \<lparr>type = k, data = v, legacyType = (if ev \<noteq> normalized then Some ev else None)\<rparr>))"
  (is "?L \<longleftrightarrow> ?R")
proof
  assume ?L
  then show ?R
    unfolding parseMessage_def parseMessage_try_def system_name_def
    by (auto simp: startsWith_Some trim_is_empty_def split: option.splits if_splits Option.bind_splits jsval.splits)
next
  assume ?R
  then show ?L
    unfolding parseMessage_def parseMessage_try_def system_name_def
    by (auto simp: trim_is_empty_def split: option.splits)
qed

text \<open>
  C1. For every input text \<^verbatim>\<open>parseMessage\<close> returns, and what it returns is either
  \<^verbatim>\<open>null\<close> or a well-formed result: an event type with a data object of that event's
  shape. Exceptions do not leave it, since \<open>parseMessage\<close> turns the exception value of
  \<open>parseMessage_try\<close> into \<^verbatim>\<open>null\<close>; and the result is a function of the text and the two
  imported tables alone.
\<close>

theorem parseMessage_null_or_well_formed:
  "parseMessage h rawMessage = None
   \<or> (\<exists>e. parseMessage h rawMessage = Some e \<and> well_formed e)"
proof (cases "parseMessage h rawMessage")
  case None
  then show ?thesis by simp
next
  case (Some e)
  then obtain ev normalized k eventData v
    where "ev \<noteq> []" "parse_case k eventData = Some v"
      and "e = \<lparr>type = k, data = v, legacyType = (if ev \<noteq> normalized then Some ev else None)\<rparr>"
    unfolding parseMessage_Some_iff by blast
  then have "well_formed e"
    using parse_case_shape [of k eventData v] by (simp add: well_formed_def)
  with Some show ?thesis by simp
qed

theorem parseMessage_null_or_well_formed_witness:
  "\<exists>e. parseMessage sample chat_text = Some e \<and> well_formed e"
proof -
  have "parseMessage sample chat_text \<noteq> None"
    by code_simp
  then show ?thesis
    using parseMessage_null_or_well_formed [of sample chat_text] by auto
qed

lemma normalizedEvent_alias:
  "legacy_alias h alias name \<Longrightarrow> normalizedEvent h alias = Some name"
  by (simp add: legacy_alias_def normalizedEvent_def table_get_def)

text \<open>
  C7. A message whose event name is a bare legacy alias and the same message under the
  canonical name the table maps the alias to are parsed alike: both give \<^verbatim>\<open>null\<close>, or both
  give a result, with the same type and the same data; the result of the bare form carries
  the alias as its legacy type and the result of the canonical form carries none.
\<close>

theorem legacy_alias_same_event:
  assumes is_alias: "legacy_alias h alias name"
    and bare: "JSON_parse h bare = Some m1" "\<not> trim_is_empty bare"
      "get m1 ''event'' = Some (Str alias)"
    and canonical: "JSON_parse h canonical = Some m2" "\<not> trim_is_empty canonical"
      "get m2 ''event'' = Some (Str name)"
    and same_data: "get m1 ''data'' = get m2 ''data''"
  shows "(parseMessage h bare = None \<and> parseMessage h canonical = None)
    \<or> (\<exists>e1 e2. parseMessage h bare = Some e1 \<and> parseMessage h canonical = Some e2
          \<and> type e1 = type e2 \<and> data e1 = data e2
          \<and> legacyType e1 = Some alias \<and> legacyType e2 = None)"
proof -
  let ?ok = "\<lambda>d eventData k v. get m2 ''data'' = Some d \<and> d \<noteq> Undefined \<and> d \<noteq> Str []
    \<and> JSON_parse_value h d = Some eventData
    \<and> find (\<lambda>k. KickEvent_value h k = name) switch_cases = Some k
    \<and> parse_case k eventData = Some v"
  have n1: "normalizedEvent h alias = Some name"
    using is_alias by (rule normalizedEvent_alias)
  have n2: "normalizedEvent h name = Some name"
    using is_alias by (simp add: legacy_alias_def)
  have facts: "alias \<noteq> []" "name \<noteq> []" "alias \<noteq> name" "\<not> system_name alias" "\<not> system_name name"
    using is_alias by (auto simp: legacy_alias_def)
  have p1: "parseMessage h bare = Some e \<longleftrightarrow>
      (\<exists>d eventData k v. ?ok d eventData k v \<and> e = \<lparr>type = k, data = v, legacyType = Some alias\<rparr>)" for e
    unfolding parseMessage_Some_iff using bare same_data n1 facts by auto
  have p2: "parseMessage h canonical = Some e \<longleftrightarrow>
      (\<exists>d eventData k v. ?ok d eventData k v \<and> e = \<lparr>type = k, data = v, legacyType = None\<rparr>)" for e
    unfolding parseMessage_Some_iff using canonical n2 facts by auto
  show ?thesis
  proof (cases "\<exists>d eventData k v. ?ok d eventData k v")
    case True
    then obtain d eventData k v where "?ok d eventData k v" by blast
    then have "parseMessage h bare = Some \<lparr>type = k, data = v, legacyType = Some alias\<rparr>"
      and "parseMessage h canonical = Some \<lparr>type = k, data = v, legacyType = None\<rparr>"
      unfolding p1 p2 by blast+
    then show ?thesis by simp
  next
    case False
    then have "parseMessage h bare = None" and "parseMessage h canonical = None"
      using p1 p2 by (metis not_Some_eq)+
    then show ?thesis by simp
  qed
qed

theorem legacy_alias_same_event_witness:
  "\<exists>e1 e2. parseMessage sample legacy_chat_text = Some e1 \<and> parseMessage sample chat_text = Some e2
     \<and> type e1 = type e2 \<and> data e1 = data e2
     \<and> legacyType e1 = Some ''ChatMessage'' \<and> legacyType e2 = None"
proof -
  let ?m1 = "Obj [(''event'', Str ''ChatMessage''), (''data'', Str chat_data_text)]"
  let ?m2 = "Obj [(''event'', Str (App_Events ''ChatMessageEvent'')), (''data'', Str chat_data_text)]"
  have a: "legacy_alias sample ''ChatMessage'' (App_Events ''ChatMessageEvent'')"
    by code_simp
  have b: "JSON_parse sample legacy_chat_text = Some ?m1" "\<not> trim_is_empty legacy_chat_text"
    "get ?m1 ''event'' = Some (Str ''ChatMessage'')"
    by code_simp+
  have c: "JSON_parse sample chat_text = Some ?m2" "\<not> trim_is_empty chat_text"
    "get ?m2 ''event'' = Some (Str (App_Events ''ChatMessageEvent''))"
    by code_simp+
  have d: "get ?m1 ''data'' = get ?m2 ''data''"
    by simp
  have "parseMessage sample chat_text \<noteq> None"
    by code_simp
  then show ?thesis
    using legacy_alias_same_event [OF a b c d] by auto
qed


lemma parseChatMessage_content:
  assumes "parseChatMessage d = Some v"
  shows "\<exists>c c'. get d ''content'' = Some c \<and> cleanEmotes c = Some c' \<and> get v ''content'' = Some c'"
  using assms by (auto simp: parseChatMessage_def split: Option.bind_splits)

text \<open>
  C9. When a message parses as a chat message, an emote placeholder
  \<^verbatim>\<open>[emote:<digits>:<word>]\<close> anywhere in the content of the wire data is replaced by its
  word in the content of the result, and the text before and the text after it are cleaned
  in the same way, each on its own.
\<close>

theorem chat_content_emotes_replaced:
  assumes "parseMessage h rawMessage = Some e" and "type e = ChatMessage"
    and "JSON_parse h rawMessage = Some message"
    and "get message ''data'' = Some d"
    and "JSON_parse_value h d = Some eventData"
    and "get eventData ''content'' = Some (Str (pre @ placeholder ds w @ post))"
    and "is_placeholder ds w"
  shows "get (data e) ''content'' = Some (Str (replace_emotes 0 pre @ w @ replace_emotes 0 post))"
proof -
  from assms(1-5) have "parseChatMessage eventData = Some (data e)"
    unfolding parseMessage_Some_iff by auto
  from parseChatMessage_content [OF this] assms(6)
  have "cleanEmotes (Str (pre @ placeholder ds w @ post)) = Some (the (get (data e) ''content''))"
    and "get (data e) ''content'' \<noteq> None"
    by auto
  moreover have "pre @ placeholder ds w @ post \<noteq> []"
    by (simp add: placeholder_def)
  ultimately show ?thesis
    using replace_emotes_placeholder [OF assms(7), of pre post]
    by (auto simp: cleanEmotes_def)
qed

theorem chat_content_emotes_replaced_witness:
  "\<exists>e. parseMessage sample chat_text = Some e \<and> type e = ChatMessage
     \<and> get chat_data ''content'' = Some (Str ''gg [emote:123:Kappa] well played'')
     \<and> get (data e) ''content'' = Some (Str ''gg Kappa well played'')"
proof -
  let ?message = "Obj [(''event'', Str (App_Events ''ChatMessageEvent'')), (''data'', Str chat_data_text)]"
  obtain e where e: "parseMessage sample chat_text = Some e" "type e = ChatMessage"
  proof -
    have "map_option type (parseMessage sample chat_text) = Some ChatMessage"
      by code_simp
    then show ?thesis using that by auto
  qed
  have m: "JSON_parse sample chat_text = Some ?message" "get ?message ''data'' = Some (Str chat_data_text)"
    "JSON_parse_value sample (Str chat_data_text) = Some chat_data"
    by code_simp+
  have c: "get chat_data ''content'' = Some (Str (''gg '' @ placeholder ''123'' ''Kappa'' @ '' well played''))"
    by code_simp
  have p: "is_placeholder ''123'' ''Kappa''"
    by code_simp
  have "get (data e) ''content''
      = Some (Str (replace_emotes 0 ''gg '' @ ''Kappa'' @ replace_emotes 0 '' well played''))"
    by (rule chat_content_emotes_replaced [OF e m c p])
  moreover have "replace_emotes 0 ''gg '' @ ''Kappa'' @ replace_emotes 0 '' well played''
      = ''gg Kappa well played''"
    by code_simp
  moreover have "get chat_data ''content'' = Some (Str ''gg [emote:123:Kappa] well played'')"
    by code_simp
  ultimately show ?thesis
    using e by auto
qed

section \<open>Properties of the manager\<close>

subsection \<open>Effects and timers of the basic operations\<close>

lemma fold_clearTimeout:
  "fold clearTimeout ts s =
    s\<lparr>timers := filter (\<lambda>(i, c). i \<notin> set ts) (timers s),
      effects := effects s @ map ClearTimeout ts\<rparr>"
proof (induction ts arbitrary: s)
  case Nil
  then show ?case by simp
next
  case (Cons t ts)
  have f: "filter (\<lambda>(i, c). i \<notin> set ts) (filter (\<lambda>(i, c). i \<noteq> t) xs)
      = filter (\<lambda>(i, c). i \<notin> set (t # ts)) xs" for xs :: "(nat \<times> timer) list"
    by (induction xs) auto
  have "fold clearTimeout (t # ts) s = fold clearTimeout ts (clearTimeout t s)"
    by simp
  also have "\<dots> = (clearTimeout t s)
      \<lparr>timers := filter (\<lambda>(i, c). i \<notin> set ts) (timers (clearTimeout t s)),
        effects := effects (clearTimeout t s) @ map ClearTimeout ts\<rparr>"
    by (rule Cons)
  also have "\<dots> = s\<lparr>timers := filter (\<lambda>(i, c). i \<notin> set (t # ts)) (timers s),
      effects := effects s @ map ClearTimeout (t # ts)\<rparr>"
    unfolding clearTimeout_def perform_def by (simp add: f del: filter_filter)
  finally show ?case .
qed

lemma emit_plain:
  "name \<noteq> ''ready'' \<Longrightarrow> name \<noteq> ''error'' \<Longrightarrow> emit name p s = perform (Emit name p) s"
  by (simp add: emit_def)

lemma emit_ready:
  "emit ''ready'' p s =
    s\<lparr>timers := filter (\<lambda>(i, c). i \<notin> set (once_ready s)) (timers s),
      effects := effects s @ Emit ''ready'' p # map ClearTimeout (once_ready s),
      once_ready := []\<rparr>"
  by (simp add: emit_def fold_clearTimeout perform_def)

lemma type_name_plain:
  "type_name k \<noteq> ''ready''" "type_name k \<noteq> ''error''" "type_name k \<noteq> ''rawMessage''"
  by (cases k; simp)+

lemma sendPing_effects:
  "effects (sendPing s) = effects s
   \<or> (\<exists>w. effects (sendPing s) = effects s @ [Send w PingFrame, Emit ''pingSent'' PingSent])"
  by (auto simp: sendPing_def emit_plain perform_def split: option.splits)

subsection \<open>Inbound messages\<close>

text \<open>
  C8. Whatever a frame holds, the first thing \<^verbatim>\<open>handleMessage\<close> does with it is to emit
  \<^verbatim>\<open>rawMessage\<close> with the text of the frame as it came; nothing it does afterwards emits
  \<^verbatim>\<open>rawMessage\<close> again.
\<close>

theorem handleMessage_rawMessage_first:
  "\<exists>rest. effects (handleMessage h rawMessage s)
      = effects s @ Emit ''rawMessage'' (RawMessage rawMessage) # rest
    \<and> ''rawMessage'' \<notin> set (map fst (emissions rest))"
proof -
  let ?s1 = "perform (Emit ''rawMessage'' (RawMessage rawMessage)) s"
  have s1: "effects ?s1 = effects s @ [Emit ''rawMessage'' (RawMessage rawMessage)]"
    by (simp add: perform_def)
  define g where "g e = emit (type_name (type e)) (DomainEvent (data e)) ?s1" for e :: envelope
  have raw: "emit ''rawMessage'' (RawMessage rawMessage) s = ?s1"
    by (simp add: emit_plain)
  have g: "emit (type_name (type e)) (DomainEvent (data e)) ?s1 = g e" for e
    by (simp add: g_def)
  have "handleMessage h rawMessage s \<in> {?s1, sendPing ?s1} \<union> range g"
    by (simp add: handleMessage_def raw Let_def g split: option.splits)
  then consider (same) "handleMessage h rawMessage s = ?s1"
    | (ping) "handleMessage h rawMessage s = sendPing ?s1"
    | (event) e where "handleMessage h rawMessage s = g e"
    by auto
  then show ?thesis
  proof cases
    case same
    then show ?thesis
      by (simp add: s1 emissions_def List.map_filter_simps)
  next
    case ping
    then show ?thesis
      using sendPing_effects [of ?s1]
      by (auto simp: s1 emissions_def List.map_filter_simps)
  next
    case (event e)
    then show ?thesis
      by (simp add: g_def s1 emit_plain type_name_plain type_name_plain(3) [THEN not_sym]
          perform_def emissions_def List.map_filter_simps)
  qed
qed

theorem handleMessage_rawMessage_first_witness:
  "\<exists>rest. effects (handleMessage sample pong_text (new_manager no_options))
      = Emit ''rawMessage'' (RawMessage pong_text) # rest
    \<and> ''rawMessage'' \<notin> set (map fst (emissions rest))"
  using handleMessage_rawMessage_first [of sample pong_text "new_manager no_options"]
  by (simp add: new_manager_def)

subsection \<open>Connecting twice\<close>

text \<open>
  C5. A call of \<^verbatim>\<open>connect\<close> in state \<^verbatim>\<open>connected\<close> or \<^verbatim>\<open>connecting\<close> changes
  nothing: the state of the manager and of its environment is the same after the call, so
  no transport is created, no promise is stored, and nothing else happens either.
\<close>

theorem connect_twice_noop:
  assumes "connectionState s = Connected \<or> connectionState s = Connecting"
  shows "connect name s = s"
  using assms by (auto simp: connect_def)

theorem connect_twice_noop_witness:
  "connectionState (connect ''a'' (new_manager no_options)) = Connecting
   \<and> connect ''b'' (connect ''a'' (new_manager no_options)) = connect ''a'' (new_manager no_options)"
proof -
  have c: "connectionState (connect ''a'' (new_manager no_options)) = Connecting"
    by (simp add: connect_def new_manager_def performConnection_def setConnectionState_def
        setTimeout_def perform_def Let_def)
  then show ?thesis
    using connect_twice_noop [of "connect ''a'' (new_manager no_options)" "''b''"] by simp
qed

subsection \<open>The subscription handshake\<close>

lemma sent_append:
  "sent_frames (xs @ ys) = sent_frames xs @ sent_frames ys"
  "sent_topics (xs @ ys) = sent_topics xs @ sent_topics ys"
  by (simp_all add: sent_frames_def sent_topics_def List.map_filter_def)

lemma sendSubscription_cases:
  "sendSubscription m s = s
   \<or> (\<exists>w. sendSubscription m s
        = s\<lparr>effects := effects s @ [Send w (SubscriptionFrame m), Emit ''subscriptionSent'' (SubscriptionSent m)]\<rparr>)"
  by (auto simp: sendSubscription_def emit_plain perform_def split: option.splits)

text \<open>
  What sending one frame for the new topic \<open>c\<close> adds to the effects: nothing, or the frame
  and its event.
\<close>

lemma sendSubscription_new:
  assumes "message_channel m = Some c"
  shows "\<exists>new. sendSubscription m s = s\<lparr>effects := effects s @ new\<rparr>
    \<and> set (sent_topics new) \<subseteq> {c} \<and> distinct (sent_topics new)
    \<and> length (sent_frames new) = length (sent_topics new)"
proof -
  from sendSubscription_cases [of m s] show ?thesis
  proof
    assume "sendSubscription m s = s"
    then have "sendSubscription m s = s\<lparr>effects := effects s @ []\<rparr>
      \<and> set (sent_topics []) \<subseteq> {c} \<and> distinct (sent_topics [])
      \<and> length (sent_frames []) = length (sent_topics [])"
      by (simp add: sent_topics_def sent_frames_def List.map_filter_simps)
    then show ?thesis by blast
  next
    assume "\<exists>w. sendSubscription m s
        = s\<lparr>effects := effects s @ [Send w (SubscriptionFrame m), Emit ''subscriptionSent'' (SubscriptionSent m)]\<rparr>"
    then obtain w where "sendSubscription m s
        = s\<lparr>effects := effects s @ [Send w (SubscriptionFrame m), Emit ''subscriptionSent'' (SubscriptionSent m)]\<rparr>"
      by blast
    moreover have "sent_frames [Send w (SubscriptionFrame m), Emit ''subscriptionSent'' (SubscriptionSent m)]
        = [SubscriptionFrame m]"
      and "sent_topics [Send w (SubscriptionFrame m), Emit ''subscriptionSent'' (SubscriptionSent m)] = [c]"
      using assms by (simp_all add: sent_topics_def sent_frames_def List.map_filter_simps)
    ultimately show ?thesis by force
  qed
qed

lemma sends_new_refl: "sends_new sub sub s s"
proof -
  have "s = s\<lparr>effects := effects s @ []\<rparr>"
    by simp
  then show ?thesis
    unfolding sends_new_def
    by (metis Diff_cancel distinct.simps(1) empty_subsetI sent_append(2) append_Nil2
        append_self_conv list.size(3) sent_append(1) set_empty subset_refl length_0_conv)
qed

lemma sends_new_step:
  assumes m: "message_channel m = Some c" and c: "c \<notin> set sub"
    and rest: "sends_new (sub @ [c]) sub' (sendSubscription m s) s'"
  shows "sends_new sub sub' s s'"
proof -
  from sendSubscription_new [OF m, of s] obtain new1
    where s1: "sendSubscription m s = s\<lparr>effects := effects s @ new1\<rparr>"
      and t1: "set (sent_topics new1) \<subseteq> {c}" "distinct (sent_topics new1)"
        "length (sent_frames new1) = length (sent_topics new1)"
    by blast
  from rest obtain new2
    where s2: "s' = (sendSubscription m s)\<lparr>effects := effects (sendSubscription m s) @ new2\<rparr>"
      and t2: "distinct (sent_topics new2)" "set (sent_topics new2) \<subseteq> set sub' - set (sub @ [c])"
        "set (sub @ [c]) \<subseteq> set sub'" "length (sent_frames new2) = length (sent_topics new2)"
    unfolding sends_new_def by blast
  have "s' = s\<lparr>effects := effects s @ (new1 @ new2)\<rparr>"
    using s1 s2 by simp
  moreover have "distinct (sent_topics (new1 @ new2))"
    using t1 t2 by (auto simp: sent_append)
  moreover have "set (sent_topics (new1 @ new2)) \<subseteq> set sub' - set sub"
    using t1 t2 c by (auto simp: sent_append)
  moreover have "set sub \<subseteq> set sub'"
    using t2 by simp
  moreover have "length (sent_frames (new1 @ new2)) = length (sent_topics (new1 @ new2))"
    using t1 t2 by (simp add: sent_append)
  ultimately show ?thesis
    unfolding sends_new_def by blast
qed

lemma subscribe_channels_sends_new:
  "subscribe_channels cs (sub, s) = (sub', s') \<Longrightarrow> sends_new sub sub' s s'"
proof (induction cs arbitrary: sub s)
  case Nil
  then show ?case by (simp add: sends_new_refl)
next
  case (Cons c cs)
  show ?case
  proof (cases "c \<in> set sub")
    case True
    with Cons show ?thesis by simp
  next
    case False
    with Cons.prems
    have "subscribe_channels cs (sub @ [c], sendSubscription (subscribe_message c) s) = (sub', s')"
      by simp
    then have "sends_new (sub @ [c]) sub' (sendSubscription (subscribe_message c) s) s'"
      by (rule Cons.IH)
    moreover have "message_channel (subscribe_message c) = Some c"
      by (simp add: message_channel_def subscribe_message_def)
    ultimately show ?thesis
      using False by (rule sends_new_step [rotated 2])
  qed
qed

lemma subscribe_messages_sends_new:
  "subscribe_messages ms (sub, s) = (sub', s') \<Longrightarrow> sends_new sub sub' s s'"
proof (induction ms arbitrary: sub s)
  case Nil
  then show ?case by (simp add: sends_new_refl)
next
  case (Cons m ms)
  show ?case
  proof (cases "\<exists>c. message_channel m = Some c \<and> c \<noteq> [] \<and> c \<notin> set sub")
    case True
    then obtain c where c: "message_channel m = Some c" "c \<noteq> []" "c \<notin> set sub"
      by blast
    with Cons.prems
    have "subscribe_messages ms (sub @ [c], sendSubscription m s) = (sub', s')"
      by simp
    then have "sends_new (sub @ [c]) sub' (sendSubscription m s) s'"
      by (rule Cons.IH)
    with c(1,3) show ?thesis
      by (rule sends_new_step)
  next
    case False
    with Cons.prems have "subscribe_messages ms (sub, s) = (sub', s')"
      by (auto split: option.splits if_splits)
    then show ?thesis
      by (rule Cons.IH)
  qed
qed

lemma sends_new_trans:
  assumes "sends_new sub1 sub2 s1 s2" and "sends_new sub2 sub3 s2 s3"
  shows "sends_new sub1 sub3 s1 s3"
proof -
  from assms(1) obtain new1
    where 1: "s2 = s1\<lparr>effects := effects s1 @ new1\<rparr>" "distinct (sent_topics new1)"
      "set (sent_topics new1) \<subseteq> set sub2 - set sub1" "set sub1 \<subseteq> set sub2"
      "length (sent_frames new1) = length (sent_topics new1)"
    unfolding sends_new_def by blast
  from assms(2) obtain new2
    where 2: "s3 = s2\<lparr>effects := effects s2 @ new2\<rparr>" "distinct (sent_topics new2)"
      "set (sent_topics new2) \<subseteq> set sub3 - set sub2" "set sub2 \<subseteq> set sub3"
      "length (sent_frames new2) = length (sent_topics new2)"
    unfolding sends_new_def by blast
  have "s3 = s1\<lparr>effects := effects s1 @ (new1 @ new2)\<rparr>"
    using 1(1) 2(1) by simp
  moreover have "distinct (sent_topics (new1 @ new2))"
    using 1 2 by (auto simp: sent_append)
  moreover have "set (sent_topics (new1 @ new2)) \<subseteq> set sub3 - set sub1"
    using 1 2 by (auto simp: sent_append)
  moreover have "set sub1 \<subseteq> set sub3"
    using 1 2 by blast
  moreover have "length (sent_frames (new1 @ new2)) = length (sent_topics (new1 @ new2))"
    using 1 2 by (simp add: sent_append)
  ultimately show ?thesis
    unfolding sends_new_def by blast
qed

text \<open>What follows the loops sends nothing.\<close>

lemma handshake_end_effects:
  "\<exists>tail. effects (call_resolver (emit ''ready'' p (setConnectionState Connected s)))
      = effects s @ tail \<and> sent_frames tail = []"
proof -
  have a: "sent_frames (map ClearTimeout ts) = []" for ts
    by (induction ts) (simp_all add: sent_frames_def List.map_filter_simps)
  have b: "sent_frames [Emit ''ready'' p] = []" "sent_frames [Resolve x] = []" for x
    by (simp_all add: sent_frames_def List.map_filter_simps)
  let ?tail = "[Emit ''ready'' p] @ map ClearTimeout (once_ready s)
    @ (case connectionResolver s of None \<Rightarrow> [] | Some x \<Rightarrow> [Resolve x])"
  have "effects (call_resolver (emit ''ready'' p (setConnectionState Connected s)))
      = effects s @ ?tail"
    by (simp add: call_resolver_def emit_ready setConnectionState_def perform_def
        split: option.splits)
  moreover have "sent_frames ?tail = []"
    unfolding sent_append by (simp add: a b split: option.splits) (simp add: sent_frames_def)
  ultimately show ?thesis by blast
qed

text \<open>
  C2. In one subscription handshake no topic is sent twice: the topics of the frames that
  \<^verbatim>\<open>subscribeToChannels\<close> sends are pairwise distinct, wherever they come from, and every
  frame it sends is a subscription frame for a topic.
\<close>

theorem handshake_topics_distinct:
  "distinct (sent_topics (effects_of subscribeToChannels s))
   \<and> length (sent_frames (effects_of subscribeToChannels s))
       = length (sent_topics (effects_of subscribeToChannels s))"
proof (cases "ws s")
  case None
  then show ?thesis
    by (simp add: subscribeToChannels_def effects_of_def sent_topics_def sent_frames_def
        List.map_filter_simps)
next
  case (Some w)
  let ?s1 = "s\<lparr>customSubscriptions := customSubscriptions s @ auto_topics (channelId s)\<rparr>"
  obtain sub1 s2 where l1: "subscribe_channels (customSubscriptions ?s1) ([], ?s1) = (sub1, s2)"
    by (cases "subscribe_channels (customSubscriptions ?s1) ([], ?s1)")
  obtain sub2 s3 where l2: "subscribe_messages (subscriptionMessages s2) (sub1, s2) = (sub2, s3)"
    by (cases "subscribe_messages (subscriptionMessages s2) (sub1, s2)")
  have "sends_new [] sub2 ?s1 s3"
    using subscribe_channels_sends_new [OF l1] subscribe_messages_sends_new [OF l2]
    by (rule sends_new_trans)
  then obtain new where new: "s3 = ?s1\<lparr>effects := effects ?s1 @ new\<rparr>"
    "distinct (sent_topics new)" "length (sent_frames new) = length (sent_topics new)"
    unfolding sends_new_def by blast
  obtain tail where tail:
    "effects (call_resolver (emit ''ready'' (Ready (channelName s3) sub2) (setConnectionState Connected s3)))
      = effects s3 @ tail" "sent_frames tail = []"
    using handshake_end_effects by blast
  have "effects (subscribeToChannels s) = effects s @ new @ tail"
    using Some l1 l2 tail(1) new(1)
    by (simp add: subscribeToChannels_def Let_def setConnectionState_def)
  then have "effects_of subscribeToChannels s = new @ tail"
    by (simp add: effects_of_def)
  then show ?thesis
    using new(2,3) tail(2) by (simp add: sent_append sent_topics_def List.map_filter_simps)
qed

theorem handshake_topics_distinct_witness:
  "sent_topics (effects_of subscribeToChannels
      ((new_manager no_options)
        \<lparr>ws := Some 0, readyState := (\<lambda>w. Some OPEN), channelId := 7,
          customSubscriptions := [''chatroom_7'', ''extra'', ''extra''],
          subscriptionMessages := [subscribe_message ''channel_7'', subscribe_message ''more'']\<rparr>))
    = [''chatroom_7'', ''extra'', ''chatrooms.7.v2'', ''channel_7'', ''chatrooms.7'', ''channel.7'',
       ''predictions-channel-7'', ''more'']
   \<and> distinct (sent_topics (effects_of subscribeToChannels
      ((new_manager no_options)
        \<lparr>ws := Some 0, readyState := (\<lambda>w. Some OPEN), channelId := 7,
          customSubscriptions := [''chatroom_7'', ''extra'', ''extra''],
          subscriptionMessages := [subscribe_message ''channel_7'', subscribe_message ''more'']\<rparr>)))"
proof -
  let ?s = "(new_manager no_options)
        \<lparr>ws := Some 0, readyState := (\<lambda>w. Some OPEN), channelId := 7,
          customSubscriptions := [''chatroom_7'', ''extra'', ''extra''],
          subscriptionMessages := [subscribe_message ''channel_7'', subscribe_message ''more'']\<rparr>"
  have "sent_topics (effects_of subscribeToChannels ?s)
    = [''chatroom_7'', ''extra'', ''chatrooms.7.v2'', ''channel_7'', ''chatrooms.7'', ''channel.7'',
       ''predictions-channel-7'', ''more'']"
    by code_simp
  moreover have "distinct (sent_topics (effects_of subscribeToChannels ?s))"
    using handshake_topics_distinct [of ?s] by (rule conjunct1)
  ultimately show ?thesis
    by (rule conjI)
qed

subsection \<open>Timers along a run\<close>

lemma extends_refl [simp]: "extends s s"
  by (simp add: extends_def)

lemma extends_fields [simp]:
  "extends s (s'\<lparr>ws := a1\<rparr>) = extends s s'"
  "extends s (s'\<lparr>channelName := a2\<rparr>) = extends s s'"
  "extends s (s'\<lparr>channelId := a3\<rparr>) = extends s s'"
  "extends s (s'\<lparr>connectionState := a4\<rparr>) = extends s s'"
  "extends s (s'\<lparr>options := a5\<rparr>) = extends s s'"
  "extends s (s'\<lparr>reconnectTimer := a6\<rparr>) = extends s s'"
  "extends s (s'\<lparr>isManualDisconnect := a7\<rparr>) = extends s s'"
  "extends s (s'\<lparr>connectionResolver := a8\<rparr>) = extends s s'"
  "extends s (s'\<lparr>connectionRejector := a9\<rparr>) = extends s s'"
  "extends s (s'\<lparr>websocketUrl := b1\<rparr>) = extends s s'"
  "extends s (s'\<lparr>websocketParams := b2\<rparr>) = extends s s'"
  "extends s (s'\<lparr>customSubscriptions := b3\<rparr>) = extends s s'"
  "extends s (s'\<lparr>subscriptionMessages := b4\<rparr>) = extends s s'"
  "extends s (s'\<lparr>once_ready := b5\<rparr>) = extends s s'"
  "extends s (s'\<lparr>once_error := b6\<rparr>) = extends s s'"
  "extends s (s'\<lparr>readyState := b7\<rparr>) = extends s s'"
  "extends s (s'\<lparr>fetches := b8\<rparr>) = extends s s'"
  "extends s (s'\<lparr>effects := b9\<rparr>) = extends s s'"
  by (simp_all add: extends_def)

lemma one_reconnect_fields [simp]:
  "one_reconnect (s\<lparr>ws := a1\<rparr>) = one_reconnect s"
  "one_reconnect (s\<lparr>channelName := a2\<rparr>) = one_reconnect s"
  "one_reconnect (s\<lparr>channelId := a3\<rparr>) = one_reconnect s"
  "one_reconnect (s\<lparr>connectionState := a4\<rparr>) = one_reconnect s"
  "one_reconnect (s\<lparr>options := a5\<rparr>) = one_reconnect s"
  "one_reconnect (s\<lparr>next_id := a6\<rparr>) = one_reconnect s"
  "one_reconnect (s\<lparr>isManualDisconnect := a7\<rparr>) = one_reconnect s"
  "one_reconnect (s\<lparr>connectionResolver := a8\<rparr>) = one_reconnect s"
  "one_reconnect (s\<lparr>connectionRejector := a9\<rparr>) = one_reconnect s"
  "one_reconnect (s\<lparr>websocketUrl := b1\<rparr>) = one_reconnect s"
  "one_reconnect (s\<lparr>websocketParams := b2\<rparr>) = one_reconnect s"
  "one_reconnect (s\<lparr>customSubscriptions := b3\<rparr>) = one_reconnect s"
  "one_reconnect (s\<lparr>subscriptionMessages := b4\<rparr>) = one_reconnect s"
  "one_reconnect (s\<lparr>once_ready := b5\<rparr>) = one_reconnect s"
  "one_reconnect (s\<lparr>once_error := b6\<rparr>) = one_reconnect s"
  "one_reconnect (s\<lparr>readyState := b7\<rparr>) = one_reconnect s"
  "one_reconnect (s\<lparr>fetches := b8\<rparr>) = one_reconnect s"
  "one_reconnect (s\<lparr>effects := b9\<rparr>) = one_reconnect s"
  by (simp_all add: one_reconnect_def)

text \<open>The basic operations, each after any state \<open>s'\<close> that extends \<open>s\<close>.\<close>

lemma extends_perform [simp]: "extends s (perform e s') = extends s s'"
  by (simp add: perform_def)

lemma extends_setConnectionState [simp]: "extends s (setConnectionState st s') = extends s s'"
  by (simp add: setConnectionState_def)

lemma extends_call_rejector [simp]: "extends s (call_rejector e s') = extends s s'"
  by (simp add: call_rejector_def split: option.splits)

lemma extends_call_resolver [simp]: "extends s (call_resolver s') = extends s s'"
  by (simp add: call_resolver_def split: option.splits)






lemma one_reconnect_perform [simp]: "one_reconnect (perform e s) = one_reconnect s"
  by (simp add: perform_def)

lemma one_reconnect_setConnectionState [simp]:
  "one_reconnect (setConnectionState st s) = one_reconnect s"
  by (simp add: setConnectionState_def)

lemma one_reconnect_call_rejector [simp]: "one_reconnect (call_rejector e s) = one_reconnect s"
  by (simp add: call_rejector_def split: option.splits)

lemma one_reconnect_call_resolver [simp]: "one_reconnect (call_resolver s) = one_reconnect s"
  by (simp add: call_resolver_def split: option.splits)












lemma one_reconnect_performConnection [simp]:
  "one_reconnect (performConnection c s) = one_reconnect s"
  by (simp add: performConnection_def Let_def setConnectionState_def)







lemma extends_sendSubscription [simp]: "extends s (sendSubscription m s') = extends s s'"
  using sendSubscription_cases [of m s'] by auto

lemma one_reconnect_sendSubscription [simp]:
  "one_reconnect (sendSubscription m s) = one_reconnect s"
  using sendSubscription_cases [of m s] by auto

lemma extends_sendPing [simp]: "extends s (sendPing s') = extends s s'"
  by (simp add: sendPing_def emit_plain split: option.splits)

lemma one_reconnect_sendPing [simp]: "one_reconnect (sendPing s) = one_reconnect s"
  by (simp add: sendPing_def emit_plain split: option.splits)

lemma subscribeToChannels_loops:
  assumes "ws s = Some w"
  shows "\<exists>new sub. subscribeToChannels s
    = (let s3 = s\<lparr>customSubscriptions := customSubscriptions s @ auto_topics (channelId s),
                  effects := effects s @ new\<rparr>;
           s6 = call_resolver (emit ''ready'' (Ready (channelName s) sub) (setConnectionState Connected s3))
       in s6\<lparr>connectionResolver := None, connectionRejector := None\<rparr>)"
proof -
  let ?s1 = "s\<lparr>customSubscriptions := customSubscriptions s @ auto_topics (channelId s)\<rparr>"
  obtain sub1 s2 where l1: "subscribe_channels (customSubscriptions ?s1) ([], ?s1) = (sub1, s2)"
    by (cases "subscribe_channels (customSubscriptions ?s1) ([], ?s1)")
  obtain sub2 s3 where l2: "subscribe_messages (subscriptionMessages s2) (sub1, s2) = (sub2, s3)"
    by (cases "subscribe_messages (subscriptionMessages s2) (sub1, s2)")
  have "sends_new [] sub2 ?s1 s3"
    using subscribe_channels_sends_new [OF l1] subscribe_messages_sends_new [OF l2]
    by (rule sends_new_trans)
  then obtain new where new: "s3 = ?s1\<lparr>effects := effects ?s1 @ new\<rparr>"
    unfolding sends_new_def by blast
  have "subscribeToChannels s
    = (let s3 = s\<lparr>customSubscriptions := customSubscriptions s @ auto_topics (channelId s),
                  effects := effects s @ new\<rparr>;
           s6 = call_resolver (emit ''ready'' (Ready (channelName s) sub2) (setConnectionState Connected s3))
       in s6\<lparr>connectionResolver := None, connectionRejector := None\<rparr>)"
    using assms l1 l2 new
    by (simp add: subscribeToChannels_def Let_def setConnectionState_def)
  then show ?thesis by blast
qed








lemma extends_config [simp]:
  "extends s (setWebSocketConfig c s') = extends s s'"
  "extends s (resetWebSocketConfig s') = extends s s'"
  "extends s (addCustomSubscriptions cs s') = extends s s'"
  "extends s (addSubscriptionMessages ms s') = extends s s'"
  "extends s (clearCustomSubscriptions s') = extends s s'"
  by (simp_all add: setWebSocketConfig_def resetWebSocketConfig_def addCustomSubscriptions_def
      addSubscriptionMessages_def clearCustomSubscriptions_def Let_def split: option.splits)

lemma one_reconnect_config [simp]:
  "one_reconnect (setWebSocketConfig c s) = one_reconnect s"
  "one_reconnect (resetWebSocketConfig s) = one_reconnect s"
  "one_reconnect (addCustomSubscriptions cs s) = one_reconnect s"
  "one_reconnect (addSubscriptionMessages ms s) = one_reconnect s"
  "one_reconnect (clearCustomSubscriptions s) = one_reconnect s"
  by (simp_all add: setWebSocketConfig_def resetWebSocketConfig_def addCustomSubscriptions_def
      addSubscriptionMessages_def clearCustomSubscriptions_def Let_def split: option.splits)













subsection \<open>After a manual disconnect\<close>

lemma scheduled_reconnects_iff:
  "i \<in> set (scheduled_reconnects s) \<longleftrightarrow> (i, ReconnectTimer) \<in> set (timers s)"
  by (force simp: scheduled_reconnects_def)

lemma quiet_alt:
  "quiet s \<longleftrightarrow>
    isManualDisconnect s \<and> reconnectTimer s = None
    \<and> (\<forall>i. (i, ReconnectTimer) \<notin> set (timers s)) \<and> connectionState s \<noteq> Reconnecting"
proof -
  have "scheduled_reconnects s = [] \<longleftrightarrow> (\<forall>i. (i, ReconnectTimer) \<notin> set (timers s))"
    using scheduled_reconnects_iff [of _ s] by (metis empty_iff empty_set equals0I set_empty)
  then show ?thesis
    by (simp add: quiet_def)
qed


lemma quiet_perform [simp]: "quiet (perform e s) = quiet s"
  by (simp add: quiet_alt perform_def)

lemma quiet_call_rejector [simp]: "quiet (call_rejector e s) = quiet s"
  by (simp add: call_rejector_def split: option.splits)

lemma quiet_call_resolver [simp]: "quiet (call_resolver s) = quiet s"
  by (simp add: call_resolver_def split: option.splits)












lemma quiet_sendSubscription [simp]: "quiet (sendSubscription m s) = quiet s"
  using sendSubscription_cases [of m s] by (auto simp: quiet_alt)

lemma quiet_sendPing [simp]: "quiet (sendPing s) = quiet s"
  by (simp add: sendPing_def emit_plain quiet_alt perform_def split: option.splits)






lemma quiet_config [simp]:
  "quiet (setWebSocketConfig c s) = quiet s"
  "quiet (resetWebSocketConfig s) = quiet s"
  "quiet (addCustomSubscriptions cs s) = quiet s"
  "quiet (addSubscriptionMessages ms s) = quiet s"
  "quiet (clearCustomSubscriptions s) = quiet s"
  "quiet (s\<lparr>options := opts\<rparr>) = quiet s"
  "quiet (s\<lparr>fetches := fs\<rparr>) = quiet s"
  "quiet (s\<lparr>readyState := rs\<rparr>) = quiet s"
  by (simp_all add: quiet_alt setWebSocketConfig_def resetWebSocketConfig_def
      addCustomSubscriptions_def addSubscriptionMessages_def clearCustomSubscriptions_def Let_def
      split: option.splits)







subsection \<open>The list of custom subscriptions\<close>

lemma emit_unchanged:
  "customSubscriptions (emit name p s) = customSubscriptions s"
  "ws (emit name p s) = ws s"
  "channelId (emit name p s) = channelId s"
  by (simp_all add: emit_def Let_def fold_clearTimeout perform_def)

lemma basic_customSubscriptions [simp]:
  "customSubscriptions (perform e s) = customSubscriptions s"
  "customSubscriptions (setTimeout c d s) = customSubscriptions s"
  "customSubscriptions (clearTimeout t s) = customSubscriptions s"
  "customSubscriptions (emit name p s) = customSubscriptions s"
  "customSubscriptions (setConnectionState st s) = customSubscriptions s"
  "customSubscriptions (call_rejector f s) = customSubscriptions s"
  "customSubscriptions (call_resolver s) = customSubscriptions s"
  by (simp_all add: perform_def setTimeout_def clearTimeout_def emit_unchanged
      setConnectionState_def call_rejector_def call_resolver_def split: option.splits)

lemma connecting_customSubscriptions [simp]:
  "customSubscriptions (scheduleReconnect s) = customSubscriptions s"
  "customSubscriptions (performConnection c s) = customSubscriptions s"
  by (simp_all add: scheduleReconnect_def performConnection_def Let_def split: option.splits)

lemma handlers_customSubscriptions [simp]:
  "customSubscriptions (handleConnectionError f s) = customSubscriptions s"
  "customSubscriptions (handleDisconnect code reason s) = customSubscriptions s"
  "customSubscriptions (onerror s) = customSubscriptions s"
  by (simp_all add: handleConnectionError_def handleDisconnect_def onerror_def Let_def)

lemma calls_customSubscriptions [simp]:
  "customSubscriptions (connect name s) = customSubscriptions s"
  "customSubscriptions (connect_timeout p s) = customSubscriptions s"
  "customSubscriptions (fetch_done c result s) = customSubscriptions s"
  "customSubscriptions (disconnect s) = customSubscriptions s"
  "customSubscriptions (sendSubscription m s) = customSubscriptions s"
  "customSubscriptions (sendPing s) = customSubscriptions s"
  "customSubscriptions (handleMessage h rawMessage s) = customSubscriptions s"
  "customSubscriptions (timer_fired t s) = customSubscriptions s"
  "customSubscriptions (setWebSocketConfig config s) = customSubscriptions s"
  by (simp_all add: connect_def connect_timeout_def fetch_done_def disconnect_def
      close_transport_def sendSubscription_def sendPing_def handleMessage_def timer_fired_def
      setWebSocketConfig_def Let_def split: option.splits caller.splits timer.splits)

lemma subscribeToChannels_appends:
  assumes "ws s = Some w"
  shows "customSubscriptions (subscribeToChannels s)
      = customSubscriptions s @ auto_topics (channelId s)"
    and "ws (subscribeToChannels s) = Some w"
    and "channelId (subscribeToChannels s) = channelId s"
  using subscribeToChannels_loops [OF assms] assms
  by (auto simp: Let_def emit_unchanged call_resolver_def setConnectionState_def perform_def
      split: option.splits)

lemma subscribeToChannels_prefix:
  "prefix (customSubscriptions s) (customSubscriptions (subscribeToChannels s))"
proof (cases "ws s")
  case None
  then show ?thesis by (simp add: subscribeToChannels_def)
next
  case (Some w)
  then show ?thesis by (simp add: subscribeToChannels_appends)
qed

lemma step_prefix:
  assumes "e \<noteq> CallClearCustomSubscriptions"
  shows "prefix (customSubscriptions s) (customSubscriptions (step h e s))"
proof (cases e)
  case (WsOpen w)
  then show ?thesis
    using subscribeToChannels_prefix [of "s\<lparr>readyState := (readyState s)(w \<mapsto> OPEN)\<rparr>"]
    by simp
next
  case CallClearCustomSubscriptions
  with assms show ?thesis by simp
qed (simp_all add: addCustomSubscriptions_def addSubscriptionMessages_def
    resetWebSocketConfig_def updateOptions_def subscribeToChannel_def
    unsubscribeFromChannel_def perform_def Let_def split: option.splits)

lemma run_prefix:
  assumes "CallClearCustomSubscriptions \<notin> set es"
  shows "prefix (customSubscriptions s) (customSubscriptions (run h es s))"
  using assms unfolding run_def
proof (induction es arbitrary: s)
  case Nil
  then show ?case by simp
next
  case (Cons e es)
  from Cons.prems have "e \<noteq> CallClearCustomSubscriptions"
    by auto
  then have "prefix (customSubscriptions s) (customSubscriptions (step h e s))"
    by (rule step_prefix)
  moreover from Cons
  have "prefix (customSubscriptions (step h e s)) (customSubscriptions (fold (step h) es (step h e s)))"
    by simp
  ultimately show ?case
    by (auto intro: prefix_order.trans)
qed

lemma handshakes_append:
  assumes "ws s = Some w"
  shows "customSubscriptions ((subscribeToChannels ^^ n) s)
      = customSubscriptions s @ concat (replicate n (auto_topics (channelId s)))
    \<and> ws ((subscribeToChannels ^^ n) s) = Some w
    \<and> channelId ((subscribeToChannels ^^ n) s) = channelId s"
proof (induction n)
  case 0
  with assms show ?case by simp
next
  case (Suc n)
  then have w: "ws ((subscribeToChannels ^^ n) s) = Some w" by simp
  have "concat (replicate n xs) @ xs = xs @ concat (replicate n xs)" for xs :: "string list"
    by (induction n) simp_all
  with Suc subscribeToChannels_appends [OF w] show ?case
    by simp
qed

lemma distinct_auto_topics: "distinct (auto_topics i)"
  by (simp add: auto_topics_def)

lemma count_list_distinct: "distinct xs \<Longrightarrow> x \<in> set xs \<Longrightarrow> count_list xs x = 1"
  by (induction xs) (auto simp: count_list_0_iff)

lemma count_list_copies: "count_list (concat (replicate n xs)) x = n * count_list xs x"
  by (induction n) simp_all

text \<open>
  C10. A subscription handshake (a transport opening while the manager holds one) appends the
  six topics derived from the channel id to \<^verbatim>\<open>customSubscriptions\<close>. No call or event other
  than \<^verbatim>\<open>clearCustomSubscriptions\<close> removes anything from the list: a run without that call
  only extends it. So \<open>n\<close> handshakes leave \<open>n\<close> more copies of each of the six topics in what
  \<^verbatim>\<open>getCustomSubscriptions\<close> returns, after the entries that were there before.
\<close>

theorem auto_topics_accumulate:
  assumes "ws s = Some w" and "CallClearCustomSubscriptions \<notin> set es"
  shows "customSubscriptions (subscribeToChannels s)
      = customSubscriptions s @ auto_topics (channelId s)
    \<and> prefix (customSubscriptions (subscribeToChannels s))
        (customSubscriptions (run h es (subscribeToChannels s)))
    \<and> fst (getCustomSubscriptions ((subscribeToChannels ^^ n) s))
      = customSubscriptions s @ concat (replicate n (auto_topics (channelId s)))
    \<and> (\<forall>topic \<in> set (auto_topics (channelId s)).
         count_list (fst (getCustomSubscriptions ((subscribeToChannels ^^ n) s))) topic
         = count_list (customSubscriptions s) topic + n)"
proof (intro conjI ballI)
  show "customSubscriptions (subscribeToChannels s)
      = customSubscriptions s @ auto_topics (channelId s)"
    using assms(1) by (rule subscribeToChannels_appends)
  show "prefix (customSubscriptions (subscribeToChannels s))
        (customSubscriptions (run h es (subscribeToChannels s)))"
    using assms(2) by (rule run_prefix)
  show n: "fst (getCustomSubscriptions ((subscribeToChannels ^^ n) s))
      = customSubscriptions s @ concat (replicate n (auto_topics (channelId s)))"
    using handshakes_append [OF assms(1), of n] by (simp add: getCustomSubscriptions_def)
  fix topic
  assume "topic \<in> set (auto_topics (channelId s))"
  then have "count_list (concat (replicate n (auto_topics (channelId s)))) topic = n"
    using count_list_distinct [OF distinct_auto_topics]
    by (simp add: count_list_copies)
  then show "count_list (fst (getCustomSubscriptions ((subscribeToChannels ^^ n) s))) topic
         = count_list (customSubscriptions s) topic + n"
    unfolding n by simp
qed

theorem auto_topics_accumulate_witness:
  "fst (getCustomSubscriptions ((subscribeToChannels ^^ 2)
      ((new_manager no_options)\<lparr>ws := Some 3, channelId := 7, customSubscriptions := [''mine'']\<rparr>)))
    = [''mine'',
       ''chatroom_7'', ''chatrooms.7.v2'', ''channel_7'', ''chatrooms.7'', ''channel.7'',
       ''predictions-channel-7'',
       ''chatroom_7'', ''chatrooms.7.v2'', ''channel_7'', ''chatrooms.7'', ''channel.7'',
       ''predictions-channel-7'']
   \<and> count_list (fst (getCustomSubscriptions ((subscribeToChannels ^^ 2)
      ((new_manager no_options)\<lparr>ws := Some 3, channelId := 7, customSubscriptions := [''mine'']\<rparr>))))
      ''chatroom_7'' = 2"
proof -
  let ?s = "(new_manager no_options)\<lparr>ws := Some 3, channelId := 7, customSubscriptions := [''mine'']\<rparr>"
  have w: "ws ?s = Some 3"
    by simp
  have e: "CallClearCustomSubscriptions \<notin> set [CallAddCustomSubscriptions [''more'']]"
    by simp
  have a: "auto_topics 7 = [''chatroom_7'', ''chatrooms.7.v2'', ''channel_7'', ''chatrooms.7'',
      ''channel.7'', ''predictions-channel-7'']"
    by code_simp
  show ?thesis
    using auto_topics_accumulate [OF w e, of sample 2]
    by (simp add: a numeral_2_eq_2)
qed

subsection \<open>The event allow-list\<close>

text \<open>
  C4. With \<^verbatim>\<open>filteredEvents = ["ChatMessage"]\<close> a banned-user message under its canonical
  name is dropped and a chat message is emitted once. A redeemed-reward
  message is emitted too, although \<^verbatim>\<open>RewardRedeemed\<close> is not in the list: its wire name
  has no entry in \<^verbatim>\<open>EVENT_TYPE_MAP\<close>, and \<^verbatim>\<open>isEventFiltered\<close> lets every name
  without an entry pass.
\<close>

theorem filter_misses_reward_redeemed:
  "filteredEvents (options chat_only) = [''ChatMessage'']
   \<and> domain_emissions (effects_of (handleMessage sample banned_text) chat_only) = []
   \<and> map fst (domain_emissions (effects_of (handleMessage sample chat_text) chat_only))
       = [''ChatMessage'']
   \<and> map fst (domain_emissions (effects_of (handleMessage sample reward_text) chat_only))
       = [''RewardRedeemed'']"
  by code_simp

subsection \<open>The pending connect promise\<close>

text \<open>
  C3. A manager connects, the channel lookup succeeds, and the new transport reports an
  error before it opens. \<^verbatim>\<open>onerror\<close> calls the stored \<^verbatim>\<open>reject\<close> and leaves the pair
  in place; when the transport then closes, \<^verbatim>\<open>handleDisconnect\<close> calls the same
  \<^verbatim>\<open>reject\<close> a second time, and only then clears the pair.
\<close>

theorem onerror_keeps_rejector:
  "connectionRejector (run sample [CallConnect ''x'', FetchDone 2 (Some 7), WsError 3]
      (new_manager no_options)) = Some 0
   \<and> rejections (effects (run sample
        [CallConnect ''x'', FetchDone 2 (Some 7), WsError 3, WsClose 3 1006 []]
      (new_manager no_options))) = [(0, WebSocketError), (0, DisconnectedError 1006 [])]"
  by code_simp

end
